theory Spec2Isabelle
  imports Complex_Main "HOL-Library.Multiset"
begin

section \<open>Python values and exceptions\<close>

text \<open>
  The three scripts are glue around library calls.  Every library function is a parameter
  of the model (a field of a record of functions); a call that may raise returns a sum,
  with \<open>Inl\<close> carrying the exception.  What the scripts themselves do (the order of the
  calls, the data passed from one call to the next, indexing, string building, the values
  logged and written) is modelled as written.
\<close>

datatype error =
    JSONDecodeError
  | KeyError string
  | TypeError
  | NameError string
  | IndexError
  | ValueError
  | ZeroDivisionError
  | FileExistsError
  | FileNotFoundError
  | IsADirectoryError
  | UnpicklingError
  | ArgumentError
  | LibraryError string

text \<open>The Python value that \<open>json.loads\<close> returns.  A dict is the list of its items.\<close>

datatype json =
    JNull
  | JBool bool
  | JNum rat
  | JStr string
  | JArr "json list"
  | JObj "(string \<times> json) list"

text \<open>\<open>v[key]\<close> with a string key: only a dict accepts it, and only for a key it holds.\<close>

fun getitem_str :: "json \<Rightarrow> string \<Rightarrow> error + json" where
  "getitem_str (JObj kvs) k =
     (case map_of kvs k of None \<Rightarrow> Inl (KeyError k) | Some v \<Rightarrow> Inr v)"
| "getitem_str _ k = Inl TypeError"

text \<open>\<open>xs[i]\<close> on a Python list: a negative index counts from the end.\<close>

definition list_getitem :: "'a list \<Rightarrow> int \<Rightarrow> error + 'a" where
  "list_getitem xs i =
     (let n = int (length xs); j = (if i < 0 then i + n else i)
      in if 0 \<le> j \<and> j < n then Inr (xs ! nat j) else Inl IndexError)"

subsection \<open>\<open>json.dumps\<close> on a list of strings\<close>

definition hex_digit :: "nat \<Rightarrow> char" where
  "hex_digit d = (if d < 10 then char_of (48 + d) else char_of (87 + d))"

definition escape_char :: "char \<Rightarrow> string" where
  "escape_char c =
     (if c = CHR 0x22 then [CHR 0x5C, CHR 0x22]
      else if c = CHR 0x5C then [CHR 0x5C, CHR 0x5C]
      else if c = CHR 0x0A then [CHR 0x5C, CHR ''n'']
      else if c = CHR 0x0D then [CHR 0x5C, CHR ''r'']
      else if c = CHR 0x09 then [CHR 0x5C, CHR ''t'']
      else if c = CHR 0x08 then [CHR 0x5C, CHR ''b'']
      else if c = CHR 0x0C then [CHR 0x5C, CHR ''f'']
      else if (of_char c :: nat) < 32 \<or> 126 < (of_char c :: nat)
        then [CHR 0x5C, CHR ''u'', CHR ''0'', CHR ''0'',
              hex_digit ((of_char c :: nat) div 16), hex_digit ((of_char c :: nat) mod 16)]
      else [c])"

definition encode_str :: "string \<Rightarrow> string" where
  "encode_str s = [CHR 0x22] @ concat (map escape_char s) @ [CHR 0x22]"

fun join :: "string \<Rightarrow> string list \<Rightarrow> string" where
  "join sep [] = []"
| "join sep [x] = x"
| "join sep (x # y # ys) = x @ sep @ join sep (y # ys)"

definition json_dumps :: "string list \<Rightarrow> string" where
  "json_dumps xs = ''['' @ join '', '' (map encode_str xs) @ '']''"

section \<open>The scoring service (score_diabetes.py)\<close>

text \<open>
  The libraries the service calls.  \<open>'arr\<close> is a NumPy array, \<open>'m\<close> a loaded model
  object.  The labels a model predicts are integers, as the arrays of a classifier fitted
  on the integer column \<open>Diabetic\<close> are.
\<close>

record ('arr, 'm) serving_lib =
  json_loads :: "string \<Rightarrow> error + json"
  np_array :: "json \<Rightarrow> error + 'arr"
  model_predict :: "'m \<Rightarrow> 'arr \<Rightarrow> error + int list"
  str_data :: "json \<Rightarrow> string"
  str_predictions :: "int list \<Rightarrow> string"
  get_model_path :: "string \<Rightarrow> error + string"
  joblib_load :: "string \<Rightarrow> error + 'm"

text \<open>
  The module's state: the global \<open>model\<close> (unbound until \<open>init\<close> has run) and what
  has been printed.
\<close>

record 'm service =
  model :: "'m option"
  printed :: "string list"

definition init :: "('arr, 'm) serving_lib \<Rightarrow> 'm service \<Rightarrow> (error + unit) \<times> 'm service" where
  "init L s =
     (case get_model_path L ''diabetes_model'' of
        Inl e \<Rightarrow> (Inl e, s)
      | Inr model_path \<Rightarrow>
          (case joblib_load L model_path of
             Inl e \<Rightarrow> (Inl e, s)
           | Inr m \<Rightarrow> (Inr (), s\<lparr>model := Some m\<rparr>)))"

definition classnames :: "string list" where
  "classnames = [''not-diabetic'', ''diabetic'']"

text \<open>The loop of \<open>run\<close>: one lookup and one append per prediction.\<close>

fun class_loop :: "int list \<Rightarrow> string list \<Rightarrow> error + string list" where
  "class_loop [] predicted_classes = Inr predicted_classes"
| "class_loop (prediction # rest) predicted_classes =
     (case list_getitem classnames prediction of
        Inl e \<Rightarrow> Inl e
      | Inr c \<Rightarrow> class_loop rest (predicted_classes @ [c]))"

definition run :: "('arr, 'm) serving_lib \<Rightarrow> string \<Rightarrow> 'm service \<Rightarrow> (error + string) \<times> 'm service" where
  "run L raw_data s =
     (case json_loads L raw_data of
        Inl e \<Rightarrow> (Inl e, s)
      | Inr loaded \<Rightarrow>
     (case getitem_str loaded ''data'' of
        Inl e \<Rightarrow> (Inl e, s)
      | Inr data \<Rightarrow>
     (case np_array L data of
        Inl e \<Rightarrow> (Inl e, s)
      | Inr np_data \<Rightarrow>
     (case model s of
        None \<Rightarrow> (Inl (NameError ''model''), s)
      | Some m \<Rightarrow>
     (case model_predict L m np_data of
        Inl e \<Rightarrow> (Inl e, s)
      | Inr predictions \<Rightarrow>
          (let log_text = ''Data:'' @ str_data L data @ '' - Predictions:''
                            @ str_predictions L predictions;
               s' = s\<lparr>printed := printed s @ [log_text]\<rparr>
           in case class_loop predictions [] of
                Inl e \<Rightarrow> (Inl e, s')
              | Inr predicted_classes \<Rightarrow> (Inr (json_dumps predicted_classes), s')))))))"

text \<open>The name a Python list lookup in \<open>classnames\<close> gives a label in \<open>-2..1\<close>, where
  \<open>-1\<close> and \<open>-2\<close> count from the end of the two-element list.\<close>

definition wrapped_name :: "int \<Rightarrow> string" where
  "wrapped_name p = (if p = 0 \<or> p = - 2 then ''not-diabetic'' else ''diabetic'')"

text \<open>A small concrete service, to run the definitions on: the parser knows five
  requests, the model labels a row by its first feature.\<close>

definition demo_rows :: json where
  "demo_rows = JArr [JArr [JNum 2, JNum 180], JArr [JNum 0, JNum 148], JArr [JNum 1, JNum 90]]"

fun demo_first :: "json \<Rightarrow> int" where
  "demo_first (JArr (JNum x # _)) = \<lfloor>x\<rfloor>"
| "demo_first _ = 0"

fun demo_array :: "json \<Rightarrow> error + int list" where
  "demo_array (JArr rows) = Inr (map demo_first rows)"
| "demo_array _ = Inl ValueError"

definition demo_serving :: "(int list, int) serving_lib" where
  "demo_serving =
     \<lparr> json_loads = (\<lambda>raw.
          if raw = ''good'' then Inr (JObj [(''data'', demo_rows)])
          else if raw = ''binary'' then Inr (JObj [(''data'', JArr [JArr [JNum 1], JArr [JNum 0]])])
          else if raw = ''nodata'' then Inr (JObj [(''rows'', demo_rows)])
          else if raw = ''empty'' then Inr (JObj [(''data'', JArr [])])
          else if raw = ''scalar'' then Inr (JObj [(''data'', JNum 1)])
          else Inl JSONDecodeError),
       np_array = demo_array,
       model_predict = (\<lambda>m a. if a = [] then Inl ValueError else Inr (map (\<lambda>x. x + m) a)),
       str_data = (\<lambda>_. ''<data>''),
       str_predictions = (\<lambda>_. ''<predictions>''),
       get_model_path = (\<lambda>n. Inr (''azureml-models/'' @ n)),
       joblib_load = (\<lambda>p. Inr 0) \<rparr>"

definition demo_service :: "int service" where
  "demo_service = \<lparr> model = Some 0, printed = [] \<rparr>"

section \<open>The training scripts\<close>

subsection \<open>Numbers, tables and figures\<close>

text \<open>
  A Python float is modelled by the rational it denotes, or one of the three special
  values; rounding is not modelled.
\<close>

datatype float64 = Finite rat | PosInf | NegInf | NaN

text \<open>\<open>1/reg\<close> for a float \<open>reg\<close>: Python raises on a zero divisor.\<close>

fun one_div :: "float64 \<Rightarrow> error + float64" where
  "one_div (Finite r) = (if r = 0 then Inl ZeroDivisionError else Inr (Finite (1 / r)))"
| "one_div PosInf = Inr (Finite 0)"
| "one_div NegInf = Inr (Finite 0)"
| "one_div NaN = Inr NaN"

text \<open>\<open>np.float\<close> is the builtin \<open>float\<close> (in the NumPy versions that have it): on a float
  it is the identity.\<close>

definition np_float :: "float64 \<Rightarrow> float64" where
  "np_float x = x"

type_synonym vec = "rat list"
type_synonym matrix = "rat list list"

text \<open>
  \<open>y_hat == y_test\<close> on one-dimensional arrays: elementwise for equal lengths, a
  length-one array is broadcast, and shapes that do not fit compare as the single value
  \<open>False\<close> (NumPy before 1.25, the versions that still have \<open>np.float\<close>).
\<close>

definition np_equal :: "vec \<Rightarrow> vec \<Rightarrow> bool list" where
  "np_equal xs ys =
     (if length xs = length ys then map (\<lambda>(x, y). x = y) (zip xs ys)
      else if length xs = 1 then map (\<lambda>y. hd xs = y) ys
      else if length ys = 1 then map (\<lambda>x. x = hd ys) xs
      else [False])"

text \<open>\<open>np.average\<close> of a boolean array: the share of \<open>True\<close>, and \<open>nan\<close> for no entries.\<close>

definition np_average :: "bool list \<Rightarrow> float64" where
  "np_average bs =
     (if bs = [] then NaN
      else Finite (of_nat (length (filter (\<lambda>b. b) bs)) / of_nat (length bs)))"

text \<open>\<open>y_scores[:,1]\<close>: the second column of a two-dimensional array.\<close>

definition column1 :: "matrix \<Rightarrow> error + vec" where
  "column1 a = (if \<forall>r \<in> set a. 1 < length r then Inr (map (\<lambda>r. r ! 1) a) else Inl IndexError)"

text \<open>A pandas dataframe: the column names and the rows of cells.\<close>

record dataframe =
  df_columns :: "string list"
  df_rows :: "rat list list"

fun column_index :: "string \<Rightarrow> string list \<Rightarrow> nat" where
  "column_index c [] = 0"
| "column_index c (d # ds) = (if c = d then 0 else Suc (column_index c ds))"

text \<open>\<open>df[[names]].values\<close> and \<open>df[name].values\<close>: a name the frame lacks is a
  \<open>KeyError\<close>.\<close>

definition select_columns :: "dataframe \<Rightarrow> string list \<Rightarrow> error + matrix" where
  "select_columns df names =
     (case filter (\<lambda>c. c \<notin> set (df_columns df)) names of
        [] \<Rightarrow> Inr (map (\<lambda>r. map (\<lambda>c. r ! column_index c (df_columns df)) names) (df_rows df))
      | c # _ \<Rightarrow> Inl (KeyError c))"

definition select_column :: "dataframe \<Rightarrow> string \<Rightarrow> error + vec" where
  "select_column df name =
     (if name \<in> set (df_columns df)
      then Inr (map (\<lambda>r. r ! column_index name (df_columns df)) (df_rows df))
      else Inl (KeyError name))"

definition feature_columns :: "string list" where
  "feature_columns = [''Pregnancies'', ''PlasmaGlucose'', ''DiastolicBloodPressure'',
     ''TricepsThickness'', ''SerumInsulin'', ''BMI'', ''DiabetesPedigree'', ''Age'']"

text \<open>The statement \<open>X, y = diabetes[[...]].values, diabetes['Diabetic'].values\<close>.\<close>

definition features_and_labels :: "dataframe \<Rightarrow> error + matrix \<times> vec" where
  "features_and_labels diabetes =
     (case select_columns diabetes feature_columns of
        Inl e \<Rightarrow> Inl e
      | Inr X \<Rightarrow>
          (case select_column diabetes ''Diabetic'' of
             Inl e \<Rightarrow> Inl e
           | Inr y \<Rightarrow> Inr (X, y)))"

text \<open>A matplotlib figure: its size, the lines drawn (x values, y values, format
  string), and the texts set.\<close>

record figure =
  fig_size :: "rat \<times> rat"
  fig_lines :: "(vec \<times> vec \<times> string option) list"
  fig_xlabel :: string
  fig_ylabel :: string
  fig_title :: string

definition new_figure :: "rat \<times> rat \<Rightarrow> figure" where
  "new_figure sz = \<lparr> fig_size = sz, fig_lines = [], fig_xlabel = [], fig_ylabel = [],
     fig_title = [] \<rparr>"

subsection \<open>The libraries, the world and the steps\<close>

text \<open>
  The library functions the training scripts call; \<open>'m\<close> is a fitted model.  A function
  that draws random numbers without a seed of its own reads NumPy's global generator,
  whose state is its first argument, and returns the state it leaves.
  \<open>permutation_seeded seed n\<close> is \<open>RandomState(seed).permutation(n)\<close>, the shuffled
  indices \<open>0..n-1\<close> that a split with an integer \<open>random_state\<close> draws from a generator of
  its own; \<open>permutation_global\<close> draws them from the global generator.
\<close>

type_synonym split = "matrix \<times> matrix \<times> vec \<times> vec"

record 'm training_lib =
  py_float :: "string \<Rightarrow> float64 option"
  str_float :: "float64 \<Rightarrow> string"
  listdir :: "string \<Rightarrow> error + string list"
  read_csv :: "string \<Rightarrow> error + dataframe"
  pd_concat :: "dataframe list \<Rightarrow> error + dataframe"
  input_datasets :: "string \<Rightarrow> (error + dataframe) option"
  permutation_seeded :: "nat \<Rightarrow> nat \<Rightarrow> nat list"
  permutation_global :: "nat \<Rightarrow> nat \<Rightarrow> nat list \<times> nat"
  fit_logistic :: "nat \<Rightarrow> float64 \<Rightarrow> string \<Rightarrow> matrix \<Rightarrow> vec \<Rightarrow> (error + 'm) \<times> nat"
  fit_tree :: "nat \<Rightarrow> matrix \<Rightarrow> vec \<Rightarrow> (error + 'm) \<times> nat"
  predict :: "'m \<Rightarrow> matrix \<Rightarrow> error + vec"
  predict_proba :: "'m \<Rightarrow> matrix \<Rightarrow> error + matrix"
  roc_auc_score :: "vec \<Rightarrow> vec \<Rightarrow> error + float64"
  roc_curve :: "vec \<Rightarrow> vec \<Rightarrow> error + vec \<times> vec \<times> vec"

text \<open>The calls a script makes, in the order it makes them.\<close>

datatype step =
    ParseArgs
  | GetContext
  | ListDir
  | ReadConcat
  | ReadDataset
  | SelectColumns
  | TrainTestSplit rat "nat option"
  | FitLogisticRegression float64 string
  | FitDecisionTree
  | Predict
  | ComputeAccuracy
  | PredictProba
  | ComputeAUC
  | LogScalar string
  | RocCurve
  | NewFigure
  | PlotLine
  | SetXLabel
  | SetYLabel
  | SetTitle
  | LogImage string
  | ShowPlot
  | MakeDirs string
  | Serialize string
  | Complete

datatype 'm stored = Pickled 'm | OtherFile

text \<open>
  What a script can read and change: NumPy's global generator, the standard output, the
  scalars and images logged to the run, pyplot's figures (the last one is the current
  one), the directories and files of the working directory, whether the run was
  completed; and the record of the calls made.
\<close>

record 'm world =
  global_rng :: nat
  trace :: "step list"
  stdout :: "string list"
  metrics :: "(string \<times> float64) list"
  images :: "(string \<times> figure) list"
  figures :: "figure list"
  dirs :: "string set"
  files :: "string \<Rightarrow> 'm stored option"
  completed :: bool

type_synonym ('a, 'm) prog = "'m world \<Rightarrow> (error + 'a) \<times> 'm world"

text \<open>One statement after another: an exception ends the script where it is raised.\<close>

definition seq :: "('a, 'm) prog \<Rightarrow> ('a \<Rightarrow> ('b, 'm) prog) \<Rightarrow> ('b, 'm) prog" where
  "seq p f = (\<lambda>w. case p w of (Inl e, w') \<Rightarrow> (Inl e, w') | (Inr x, w') \<Rightarrow> f x w')"

text \<open>A value computed by the script itself, and a library call that only returns.\<close>

definition pure :: "error + 'a \<Rightarrow> ('a, 'm) prog" where
  "pure r = (\<lambda>w. (r, w))"

definition call :: "step \<Rightarrow> error + 'a \<Rightarrow> ('a, 'm) prog" where
  "call st r = (\<lambda>w. (r, w\<lparr>trace := trace w @ [st]\<rparr>))"

definition print :: "string \<Rightarrow> (unit, 'm) prog" where
  "print line = (\<lambda>w. (Inr (), w\<lparr>stdout := stdout w @ [line]\<rparr>))"

definition run_log :: "string \<Rightarrow> float64 \<Rightarrow> (unit, 'm) prog" where
  "run_log name v =
     (\<lambda>w. (Inr (), w\<lparr>trace := trace w @ [LogScalar name], metrics := metrics w @ [(name, v)]\<rparr>))"

definition run_complete :: "(unit, 'm) prog" where
  "run_complete = (\<lambda>w. (Inr (), w\<lparr>trace := trace w @ [Complete], completed := True\<rparr>))"

text \<open>
  \<open>train_test_split\<close> of scikit-learn for a float \<open>test_size\<close> and no \<open>train_size\<close>, as its
  documentation and its \<open>ShuffleSplit\<close> describe it: both arrays must have the same number
  \<open>n\<close> of rows; the test set gets \<open>ceil(test_size * n)\<close> rows and the training set the
  others, neither may be empty; the rows are taken in the order of a random permutation
  of the indices, the test set from its front.
\<close>

definition split_by :: "nat list \<Rightarrow> rat \<Rightarrow> matrix \<Rightarrow> vec \<Rightarrow> error + split" where
  "split_by permutation test_size X y =
     (let n = length X; n_test = nat \<lceil>test_size * of_nat n\<rceil>; n_train = n - n_test
      in if length y \<noteq> n \<or> test_size \<le> 0 \<or> 1 \<le> test_size \<or> n_train = 0
         then Inl ValueError
         else let ind_test = take n_test permutation;
                  ind_train = take n_train (drop n_test permutation)
              in Inr (map (\<lambda>i. X ! i) ind_train, map (\<lambda>i. X ! i) ind_test,
                      map (\<lambda>i. y ! i) ind_train, map (\<lambda>i. y ! i) ind_test))"

definition split_seeded ::
    "'m training_lib \<Rightarrow> nat \<Rightarrow> rat \<Rightarrow> matrix \<Rightarrow> vec \<Rightarrow> error + split" where
  "split_seeded L seed test_size X y =
     split_by (permutation_seeded L seed (length X)) test_size X y"

definition split_global ::
    "'m training_lib \<Rightarrow> nat \<Rightarrow> rat \<Rightarrow> matrix \<Rightarrow> vec \<Rightarrow> (error + split) \<times> nat" where
  "split_global L g test_size X y =
     (case permutation_global L g (length X) of
        (permutation, g') \<Rightarrow> (split_by permutation test_size X y, g'))"

text \<open>\<open>train_test_split(X, y, test_size=..., random_state=...)\<close>: an integer
  \<open>random_state\<close> seeds a generator of its own, \<open>None\<close> uses the global one.\<close>

definition train_test_split ::
    "'m training_lib \<Rightarrow> matrix \<Rightarrow> vec \<Rightarrow> rat \<Rightarrow> nat option \<Rightarrow> (split, 'm) prog" where
  "train_test_split L X y test_size random_state =
     (\<lambda>w. case random_state of
        Some seed \<Rightarrow>
          (split_seeded L seed test_size X y,
           w\<lparr>trace := trace w @ [TrainTestSplit test_size random_state]\<rparr>)
      | None \<Rightarrow>
          (case split_global L (global_rng w) test_size X y of
             (r, g) \<Rightarrow>
               (r, w\<lparr>trace := trace w @ [TrainTestSplit test_size random_state],
                      global_rng := g\<rparr>)))"

text \<open>\<open>LogisticRegression(C=..., solver=...).fit(X, y)\<close> and
  \<open>DecisionTreeClassifier().fit(X, y)\<close>: neither is given a \<open>random_state\<close>.\<close>

definition fit_logistic_regression ::
    "'m training_lib \<Rightarrow> float64 \<Rightarrow> string \<Rightarrow> matrix \<Rightarrow> vec \<Rightarrow> ('m, 'm) prog" where
  "fit_logistic_regression L C solver X y =
     (\<lambda>w. case fit_logistic L (global_rng w) C solver X y of
        (r, g) \<Rightarrow>
          (r, w\<lparr>trace := trace w @ [FitLogisticRegression C solver], global_rng := g\<rparr>))"

definition fit_decision_tree :: "'m training_lib \<Rightarrow> matrix \<Rightarrow> vec \<Rightarrow> ('m, 'm) prog" where
  "fit_decision_tree L X y =
     (\<lambda>w. case fit_tree L (global_rng w) X y of
        (r, g) \<Rightarrow> (r, w\<lparr>trace := trace w @ [FitDecisionTree], global_rng := g\<rparr>))"

text \<open>pyplot: \<open>plt.figure\<close> opens a figure and makes it current; the other calls change
  the current figure, opening a default one when there is none.\<close>

definition plt_figure :: "rat \<times> rat \<Rightarrow> (nat, 'm) prog" where
  "plt_figure sz =
     (\<lambda>w. (Inr (length (figures w)),
           w\<lparr>trace := trace w @ [NewFigure], figures := figures w @ [new_figure sz]\<rparr>))"

definition on_current :: "step \<Rightarrow> (figure \<Rightarrow> figure) \<Rightarrow> (unit, 'm) prog" where
  "on_current st f =
     (\<lambda>w. let figs = (if figures w = [] then [new_figure (32 / 5, 24 / 5)] else figures w)
          in (Inr (), w\<lparr>trace := trace w @ [st],
                         figures := butlast figs @ [f (last figs)]\<rparr>))"

definition plt_plot :: "vec \<Rightarrow> vec \<Rightarrow> string option \<Rightarrow> (unit, 'm) prog" where
  "plt_plot xs ys fmt = on_current PlotLine (\<lambda>g. g\<lparr>fig_lines := fig_lines g @ [(xs, ys, fmt)]\<rparr>)"

definition plt_xlabel :: "string \<Rightarrow> (unit, 'm) prog" where
  "plt_xlabel s = on_current SetXLabel (\<lambda>g. g\<lparr>fig_xlabel := s\<rparr>)"

definition plt_ylabel :: "string \<Rightarrow> (unit, 'm) prog" where
  "plt_ylabel s = on_current SetYLabel (\<lambda>g. g\<lparr>fig_ylabel := s\<rparr>)"

definition plt_title :: "string \<Rightarrow> (unit, 'm) prog" where
  "plt_title s = on_current SetTitle (\<lambda>g. g\<lparr>fig_title := s\<rparr>)"

text \<open>\<open>run.log_image(name, plot=fig)\<close> stores the figure as it is at the call.\<close>

definition run_log_image :: "string \<Rightarrow> nat \<Rightarrow> (unit, 'm) prog" where
  "run_log_image name fig =
     (\<lambda>w. if fig < length (figures w)
          then (Inr (), w\<lparr>trace := trace w @ [LogImage name],
                          images := images w @ [(name, figures w ! fig)]\<rparr>)
          else (Inl ValueError, w\<lparr>trace := trace w @ [LogImage name]\<rparr>))"

text \<open>\<open>os.makedirs(path, exist_ok=True)\<close> for a one-level path, and
  \<open>joblib.dump(value, filename)\<close>.\<close>

definition makedirs :: "string \<Rightarrow> (unit, 'm) prog" where
  "makedirs path =
     (\<lambda>w. if files w path \<noteq> None
          then (Inl FileExistsError, w\<lparr>trace := trace w @ [MakeDirs path]\<rparr>)
          else (Inr (), w\<lparr>trace := trace w @ [MakeDirs path], dirs := insert path (dirs w)\<rparr>))"

definition dirname :: "string \<Rightarrow> string" where
  "dirname p = rev (drop 1 (dropWhile (\<lambda>c. c \<noteq> CHR ''/'') (rev p)))"

definition joblib_dump :: "'m \<Rightarrow> string \<Rightarrow> (unit, 'm) prog" where
  "joblib_dump v filename =
     (\<lambda>w. if filename \<in> dirs w
          then (Inl IsADirectoryError, w\<lparr>trace := trace w @ [Serialize filename]\<rparr>)
          else if dirname filename \<noteq> [] \<and> dirname filename \<notin> dirs w
          then (Inl FileNotFoundError, w\<lparr>trace := trace w @ [Serialize filename]\<rparr>)
          else (Inr (), w\<lparr>trace := trace w @ [Serialize filename],
                          files := (files w)(filename \<mapsto> Pickled v)\<rparr>))"

text \<open>\<open>joblib.load\<close> on the files of a world.\<close>

definition joblib_load_from :: "(string \<Rightarrow> 'm stored option) \<Rightarrow> string \<Rightarrow> error + 'm" where
  "joblib_load_from fs path =
     (case fs path of
        None \<Rightarrow> Inl FileNotFoundError
      | Some OtherFile \<Rightarrow> Inl UnpicklingError
      | Some (Pickled v) \<Rightarrow> Inr v)"

subsection \<open>diabetes_training_from_datastore/diabetes_training.py\<close>

text \<open>The command line: the value given to each of the two options, if it is
  given.\<close>

record cmdline =
  regularization :: "string option"
  data_folder_opt :: "string option"

record args =
  reg_rate :: float64
  data_folder :: "string option"

text \<open>\<open>parser.parse_args()\<close>: a value that \<open>float\<close> rejects makes argparse exit with an
  error, here \<open>ArgumentError\<close>.\<close>

definition parse_args :: "'m training_lib \<Rightarrow> cmdline \<Rightarrow> error + args" where
  "parse_args L c =
     (case regularization c of
        None \<Rightarrow> Inr \<lparr> reg_rate = Finite (1 / 100), data_folder = data_folder_opt c \<rparr>
      | Some s \<Rightarrow>
          (case py_float L s of
             None \<Rightarrow> Inl ArgumentError
           | Some r \<Rightarrow> Inr \<lparr> reg_rate = r, data_folder = data_folder_opt c \<rparr>))"

text \<open>\<open>os.path.join(data_folder, csv_file)\<close>; a folder that is \<open>None\<close> is a \<open>TypeError\<close>.\<close>

definition path_join :: "string option \<Rightarrow> string \<Rightarrow> error + string" where
  "path_join folder name =
     (case folder of
        None \<Rightarrow> Inl TypeError
      | Some d \<Rightarrow>
          if name \<noteq> [] \<and> hd name = CHR ''/'' then Inr name
          else if d = [] \<or> last d = CHR ''/'' then Inr (d @ name)
          else Inr (d @ ''/'' @ name))"

text \<open>The generator handed to \<open>pd.concat\<close>: every entry of the folder is read as a CSV
  file, in the order of the listing.\<close>

fun read_all :: "'m training_lib \<Rightarrow> string option \<Rightarrow> string list \<Rightarrow> error + dataframe list" where
  "read_all L folder [] = Inr []"
| "read_all L folder (csv_file # rest) =
     (case path_join folder csv_file of
        Inl e \<Rightarrow> Inl e
      | Inr p \<Rightarrow>
          (case read_csv L p of
             Inl e \<Rightarrow> Inl e
           | Inr df \<Rightarrow>
               (case read_all L folder rest of
                  Inl e \<Rightarrow> Inl e
                | Inr dfs \<Rightarrow> Inr (df # dfs))))"

definition load_folder :: "'m training_lib \<Rightarrow> string option \<Rightarrow> string list \<Rightarrow> error + dataframe" where
  "load_folder L folder all_files =
     (case read_all L folder all_files of
        Inl e \<Rightarrow> Inl e
      | Inr dfs \<Rightarrow> pd_concat L dfs)"

definition str_opt :: "string option \<Rightarrow> string" where
  "str_opt s = (case s of None \<Rightarrow> ''None'' | Some t \<Rightarrow> t)"

definition auc_of :: "'m training_lib \<Rightarrow> vec \<Rightarrow> matrix \<Rightarrow> error + float64" where
  "auc_of L y_test y_scores =
     (case column1 y_scores of Inl e \<Rightarrow> Inl e | Inr s \<Rightarrow> roc_auc_score L y_test s)"

text \<open>The script from line 34 on, for the \<open>X\<close> and \<open>y\<close> of line 31.\<close>

definition datastore_split_fit_score ::
    "'m training_lib \<Rightarrow> args \<Rightarrow> matrix \<Rightarrow> vec \<Rightarrow> (unit, 'm) prog" where
  "datastore_split_fit_score L args X y =
     seq (train_test_split L X y (3 / 10) (Some 0)) (\<lambda>(X_train, X_test, y_train, y_test).
     seq (print (''Training a logistic regression model with regularization rate of ''
                  @ str_float L (reg_rate args))) (\<lambda>_.
     seq (run_log ''Regularization Rate'' (np_float (reg_rate args))) (\<lambda>_.
     seq (pure (one_div (reg_rate args))) (\<lambda>C.
     seq (fit_logistic_regression L C ''liblinear'' X_train y_train) (\<lambda>fitted.
     seq (call Predict (predict L fitted X_test)) (\<lambda>y_hat.
     seq (call ComputeAccuracy (Inr (np_average (np_equal y_hat y_test)))) (\<lambda>acc.
     seq (print (''Accuracy: '' @ str_float L acc)) (\<lambda>_.
     seq (run_log ''Accuracy'' (np_float acc)) (\<lambda>_.
     seq (call PredictProba (predict_proba L fitted X_test)) (\<lambda>y_scores.
     seq (call ComputeAUC (auc_of L y_test y_scores)) (\<lambda>auc.
     seq (print (''AUC: '' @ str_float L auc)) (\<lambda>_.
     seq (run_log ''AUC'' (np_float auc)) (\<lambda>_.
     seq (makedirs ''outputs'') (\<lambda>_.
     seq (joblib_dump fitted ''outputs/diabetes_model.pkl'') (\<lambda>_.
     run_complete)))))))))))))))"

text \<open>The whole script: lines 14 to 31, then the rest.\<close>

definition datastore_training :: "'m training_lib \<Rightarrow> cmdline \<Rightarrow> (unit, 'm) prog" where
  "datastore_training L argv =
     seq (call ParseArgs (parse_args L argv)) (\<lambda>args.
     seq (call GetContext (Inr ())) (\<lambda>_.
     seq (print (''Loading data from '' @ str_opt (data_folder args))) (\<lambda>_.
     seq (call ListDir (listdir L (case data_folder args of None \<Rightarrow> ''.'' | Some d \<Rightarrow> d)))
       (\<lambda>all_files.
     seq (call ReadConcat (load_folder L (data_folder args) all_files)) (\<lambda>diabetes.
     seq (call SelectColumns (features_and_labels diabetes)) (\<lambda>(X, y).
     datastore_split_fit_score L args X y))))))"

subsection \<open>diabetes_training_tree/diabetes_training.py\<close>

text \<open>\<open>run.input_datasets[name].to_pandas_dataframe()\<close>.\<close>

definition input_dataframe :: "'m training_lib \<Rightarrow> string \<Rightarrow> error + dataframe" where
  "input_dataframe L name =
     (case input_datasets L name of None \<Rightarrow> Inl (KeyError name) | Some r \<Rightarrow> r)"

definition roc_of :: "'m training_lib \<Rightarrow> vec \<Rightarrow> matrix \<Rightarrow> error + vec \<times> vec \<times> vec" where
  "roc_of L y_test y_scores =
     (case column1 y_scores of Inl e \<Rightarrow> Inl e | Inr s \<Rightarrow> roc_curve L y_test s)"

text \<open>The script from line 24 on, for the \<open>X\<close> and \<open>y\<close> of line 21.\<close>

definition tree_split_fit_score :: "'m training_lib \<Rightarrow> matrix \<Rightarrow> vec \<Rightarrow> (unit, 'm) prog" where
  "tree_split_fit_score L X y =
     seq (train_test_split L X y (3 / 10) (Some 0)) (\<lambda>(X_train, X_test, y_train, y_test).
     seq (print ''Training a decision tree model'') (\<lambda>_.
     seq (fit_decision_tree L X_train y_train) (\<lambda>fitted.
     seq (call Predict (predict L fitted X_test)) (\<lambda>y_hat.
     seq (call ComputeAccuracy (Inr (np_average (np_equal y_hat y_test)))) (\<lambda>acc.
     seq (print (''Accuracy: '' @ str_float L acc)) (\<lambda>_.
     seq (run_log ''Accuracy'' (np_float acc)) (\<lambda>_.
     seq (call PredictProba (predict_proba L fitted X_test)) (\<lambda>y_scores.
     seq (call ComputeAUC (auc_of L y_test y_scores)) (\<lambda>auc.
     seq (print (''AUC: '' @ str_float L auc)) (\<lambda>_.
     seq (run_log ''AUC'' (np_float auc)) (\<lambda>_.
     seq (call RocCurve (roc_of L y_test y_scores)) (\<lambda>(fpr, tpr, thresholds).
     seq (plt_figure (6, 4)) (\<lambda>fig.
     seq (plt_plot [0, 1] [0, 1] (Some ''k--'')) (\<lambda>_.
     seq (plt_plot fpr tpr None) (\<lambda>_.
     seq (plt_xlabel ''False Positive Rate'') (\<lambda>_.
     seq (plt_ylabel ''True Positive Rate'') (\<lambda>_.
     seq (plt_title ''ROC Curve'') (\<lambda>_.
     seq (run_log_image ''ROC'' fig) (\<lambda>_.
     seq (call ShowPlot (Inr ())) (\<lambda>_.
     seq (makedirs ''outputs'') (\<lambda>_.
     seq (joblib_dump fitted ''outputs/diabetes_model.pkl'') (\<lambda>_.
     run_complete))))))))))))))))))))))"

text \<open>The whole script: lines 14 to 21, then the rest.\<close>

definition tree_training :: "'m training_lib \<Rightarrow> (unit, 'm) prog" where
  "tree_training L =
     seq (call GetContext (Inr ())) (\<lambda>_.
     seq (print ''Loading Data...'') (\<lambda>_.
     seq (call ReadDataset (input_dataframe L ''diabetes'')) (\<lambda>diabetes.
     seq (call SelectColumns (features_and_labels diabetes)) (\<lambda>(X, y).
     tree_split_fit_score L X y))))"

text \<open>The figure the decision-tree script has drawn when it logs it.\<close>

definition roc_figure :: "vec \<Rightarrow> vec \<Rightarrow> figure" where
  "roc_figure fpr tpr =
     \<lparr> fig_size = (6, 4),
       fig_lines = [([0, 1], [0, 1], Some ''k--''), (fpr, tpr, None)],
       fig_xlabel = ''False Positive Rate'',
       fig_ylabel = ''True Positive Rate'',
       fig_title = ''ROC Curve'' \<rparr>"

subsection \<open>The order of the steps\<close>

text \<open>The calls of a run of each script that ends normally.\<close>

definition tree_steps :: "step list" where
  "tree_steps =
     [GetContext, ReadDataset, SelectColumns, TrainTestSplit (3 / 10) (Some 0),
      FitDecisionTree, Predict, ComputeAccuracy, LogScalar ''Accuracy'', PredictProba,
      ComputeAUC, LogScalar ''AUC'', RocCurve, NewFigure, PlotLine, PlotLine, SetXLabel,
      SetYLabel, SetTitle, LogImage ''ROC'', ShowPlot, MakeDirs ''outputs'',
      Serialize ''outputs/diabetes_model.pkl'', Complete]"

definition datastore_steps :: "float64 \<Rightarrow> step list" where
  "datastore_steps C =
     [ParseArgs, GetContext, ListDir, ReadConcat, SelectColumns,
      TrainTestSplit (3 / 10) (Some 0), LogScalar ''Regularization Rate'',
      FitLogisticRegression C ''liblinear'', Predict, ComputeAccuracy,
      LogScalar ''Accuracy'', PredictProba, ComputeAUC, LogScalar ''AUC'',
      MakeDirs ''outputs'', Serialize ''outputs/diabetes_model.pkl'', Complete]"

text \<open>
  The order the specification gives, following its words: (0) parse arguments or read a
  dataset handle, (1) \<open>train_test_split\<close>, (2) \<open>fit\<close>, (3) \<open>predict\<close>/\<open>predict_proba\<close>,
  (4) compute accuracy and AUC, (5) plot, (6) serialize the model, (7) log the scalar
  metrics.  Steps the specification does not name have no phase.
\<close>

fun spec_phase :: "step \<Rightarrow> nat option" where
  "spec_phase ParseArgs = Some 0"
| "spec_phase ReadDataset = Some 0"
| "spec_phase (TrainTestSplit t r) = Some 1"
| "spec_phase (FitLogisticRegression C s) = Some 2"
| "spec_phase FitDecisionTree = Some 2"
| "spec_phase Predict = Some 3"
| "spec_phase PredictProba = Some 3"
| "spec_phase ComputeAccuracy = Some 4"
| "spec_phase ComputeAUC = Some 4"
| "spec_phase RocCurve = Some 5"
| "spec_phase NewFigure = Some 5"
| "spec_phase PlotLine = Some 5"
| "spec_phase SetXLabel = Some 5"
| "spec_phase SetYLabel = Some 5"
| "spec_phase SetTitle = Some 5"
| "spec_phase (LogImage n) = Some 5"
| "spec_phase ShowPlot = Some 5"
| "spec_phase (Serialize f) = Some 6"
| "spec_phase (LogScalar n) = (if n = ''Accuracy'' \<or> n = ''AUC'' then Some 7 else None)"
| "spec_phase _ = None"

definition follows_spec_order :: "step list \<Rightarrow> bool" where
  "follows_spec_order tr = sorted (List.map_filter spec_phase tr)"

text \<open>``Metric logging happens after serialization'': no metric is logged before a model
  has been serialized.\<close>

fun is_metric_log :: "step \<Rightarrow> bool" where
  "is_metric_log (LogScalar n) = (n = ''Accuracy'' \<or> n = ''AUC'')"
| "is_metric_log _ = False"

fun is_serialize :: "step \<Rightarrow> bool" where
  "is_serialize (Serialize f) = True"
| "is_serialize _ = False"

fun logs_after :: "bool \<Rightarrow> step list \<Rightarrow> bool" where
  "logs_after serialized [] = True"
| "logs_after serialized (s # ss) =
     ((is_metric_log s \<longrightarrow> serialized) \<and> logs_after (serialized \<or> is_serialize s) ss)"

definition metric_logs_follow_serialization :: "step list \<Rightarrow> bool" where
  "metric_logs_follow_serialization tr = logs_after False tr"

text \<open>Two worlds that differ at most in the state of NumPy's global generator.\<close>

definition same_but_rng :: "'m world \<Rightarrow> 'm world \<Rightarrow> bool" where
  "same_but_rng w1 w2 = (w1\<lparr>global_rng := 0\<rparr> = w2\<lparr>global_rng := 0\<rparr>)"

text \<open>A statement whose result and effects do not depend on the state of the global
  generator.\<close>

definition rng_blind :: "('a, 'm) prog \<Rightarrow> bool" where
  "rng_blind p =
     (\<forall>w1 w2. same_but_rng w1 w2 \<longrightarrow>
        fst (p w1) = fst (p w2) \<and> same_but_rng (snd (p w1)) (snd (p w2)))"

subsection \<open>A small concrete library and world\<close>

text \<open>
  A toy instance to run the scripts on.  The folder \<open>data\<close> holds two CSV files of two
  rows each, the folder \<open>mixed\<close> an entry that \<open>read_csv\<close> cannot read, the folder \<open>text\<close>
  a text file that is not a CSV file by its name but that \<open>read_csv\<close> parses, the folder
  \<open>short\<close> a CSV file without the column \<open>Age\<close>.  A generator rotates the indices by as
  many places as its seed or state says.  A model is a threshold on the glucose column.
\<close>

definition demo_columns :: "string list" where
  "demo_columns = ''PatientID'' # feature_columns @ [''Diabetic'']"

definition demo_frame_a :: dataframe where
  "demo_frame_a = \<lparr> df_columns = demo_columns,
     df_rows = [[1, 0, 171, 80, 34, 23, 43, 1, 21, 1], [2, 8, 92, 93, 47, 36, 21, 0, 23, 0]] \<rparr>"

definition demo_frame_b :: dataframe where
  "demo_frame_b = \<lparr> df_columns = demo_columns,
     df_rows = [[3, 7, 115, 47, 52, 35, 41, 0, 43, 0], [4, 9, 103, 78, 25, 304, 29, 1, 43, 0]] \<rparr>"

definition demo_frame_c :: dataframe where
  "demo_frame_c = \<lparr> df_columns = butlast feature_columns @ [''Diabetic''],
     df_rows = [[0, 171, 80, 34, 23, 43, 1, 1], [8, 92, 93, 47, 36, 21, 0, 0]] \<rparr>"

definition demo_concat :: "dataframe list \<Rightarrow> error + dataframe" where
  "demo_concat dfs =
     (case dfs of
        [] \<Rightarrow> Inl ValueError
      | d # _ \<Rightarrow> Inr \<lparr> df_columns = df_columns d, df_rows = concat (map df_rows dfs) \<rparr>)"

definition demo_lib :: "rat training_lib" where
  "demo_lib =
     \<lparr> py_float = (\<lambda>s. if s = ''0.5'' then Some (Finite (1 / 2))
                        else if s = ''0'' then Some (Finite 0) else None),
       str_float = (\<lambda>_. ''<float>''),
       listdir = (\<lambda>d. if d = ''data'' then Inr [''a.csv'', ''b.csv'']
                       else if d = ''mixed'' then Inr [''a.csv'', ''notes.bin'']
                       else if d = ''text'' then Inr [''a.csv'', ''notes.txt'']
                       else if d = ''short'' then Inr [''c.csv'']
                       else Inl FileNotFoundError),
       read_csv = (\<lambda>p. if p = ''data/a.csv'' \<or> p = ''mixed/a.csv'' \<or> p = ''text/a.csv''
                          then Inr demo_frame_a
                        else if p = ''data/b.csv'' \<or> p = ''text/notes.txt'' then Inr demo_frame_b
                        else if p = ''short/c.csv'' then Inr demo_frame_c
                        else Inl (LibraryError ''ParserError'')),
       pd_concat = demo_concat,
       input_datasets = (\<lambda>n. if n = ''diabetes''
                              then Some (demo_concat [demo_frame_a, demo_frame_b]) else None),
       permutation_seeded = (\<lambda>seed n. rotate seed [0..<n]),
       permutation_global = (\<lambda>g n. (rotate g [0..<n], Suc g)),
       fit_logistic = (\<lambda>g C solver X y. (Inr 110, Suc g)),
       fit_tree = (\<lambda>g X y. (Inr 180, Suc g)),
       predict = (\<lambda>m X. Inr (map (\<lambda>r. if m \<le> r ! 1 then 1 else 0) X)),
       predict_proba = (\<lambda>m X. Inr (map (\<lambda>r. if m \<le> r ! 1 then [0, 1] else [1, 0]) X)),
       roc_auc_score = (\<lambda>y s. Inr (Finite (3 / 4))),
       roc_curve = (\<lambda>y s. Inr ([0, 0, 1], [0, 1, 1], [2, 1, 0])) \<rparr>"

text \<open>The same library on a system that lists the folder \<open>data\<close> in the other order.\<close>

definition demo_lib_ba :: "rat training_lib" where
  "demo_lib_ba = demo_lib\<lparr>listdir := (\<lambda>d. Inr [''b.csv'', ''a.csv''])\<rparr>"

definition demo_world :: "rat world" where
  "demo_world =
     \<lparr> global_rng = 7, trace = [], stdout = [], metrics = [], images = [], figures = [],
       dirs = {}, files = (\<lambda>_. None), completed = False \<rparr>"

definition demo_argv :: cmdline where
  "demo_argv = \<lparr> regularization = Some ''0.5'', data_folder_opt = Some ''data'' \<rparr>"

section \<open>Properties of the scoring service\<close>

lemma class_loop_acc:
  "class_loop ps acc = (case class_loop ps [] of Inl e \<Rightarrow> Inl e | Inr cs \<Rightarrow> Inr (acc @ cs))"
proof (induction ps arbitrary: acc)
  case Nil
  show ?case by simp
next
  case (Cons p ps)
  show ?case
  proof (cases "list_getitem classnames p")
    case (Inl e)
    then show ?thesis by simp
  next
    case (Inr c)
    then show ?thesis
      using Cons.IH [of "acc @ [c]"] Cons.IH [of "[c]"]
      by (simp split: sum.splits)
  qed
qed

lemma list_getitem_classnames:
  "list_getitem classnames p =
     (if - 2 \<le> p \<and> p \<le> 1 then Inr (wrapped_name p) else Inl IndexError)"
proof -
  consider "p < - 2" | "p = - 2" | "p = - 1" | "p = 0" | "p = 1" | "1 < p"
    by linarith
  then show ?thesis
    by cases (simp_all add: list_getitem_def classnames_def wrapped_name_def Let_def)
qed

lemma class_loop_in_bounds:
  "\<forall>p \<in> set ps. - 2 \<le> p \<and> p \<le> 1 \<Longrightarrow> class_loop ps [] = Inr (map wrapped_name ps)"
proof (induction ps)
  case Nil
  show ?case by simp
next
  case (Cons p ps)
  then have "class_loop ps [] = Inr (map wrapped_name ps)"
    by simp
  then have "class_loop ps [wrapped_name p] = Inr (wrapped_name p # map wrapped_name ps)"
    by (subst class_loop_acc) simp
  with Cons.prems show ?case
    by (simp add: list_getitem_classnames)
qed

lemma class_loop_out_of_bounds:
  "\<exists>p \<in> set ps. p < - 2 \<or> 1 < p \<Longrightarrow> class_loop ps [] = Inl IndexError"
proof (induction ps)
  case Nil
  then show ?case by simp
next
  case (Cons p ps)
  show ?case
  proof (cases "- 2 \<le> p \<and> p \<le> 1")
    case False
    then have "list_getitem classnames p = Inl IndexError"
      by (simp only: list_getitem_classnames if_False)
    then show ?thesis by simp
  next
    case True
    with Cons.prems have "\<exists>q \<in> set ps. q < - 2 \<or> 1 < q"
      by auto
    then have "class_loop ps [] = Inl IndexError"
      by (rule Cons.IH)
    then have "class_loop ps [wrapped_name p] = Inl IndexError"
      by (subst class_loop_acc) simp
    with True show ?thesis
      by (simp add: list_getitem_classnames)
  qed
qed

lemma run_scored:
  assumes "json_loads L raw_data = Inr loaded"
    and "getitem_str loaded ''data'' = Inr data"
    and "np_array L data = Inr np_data"
    and "model s = Some m"
    and "model_predict L m np_data = Inr predictions"
  shows "run L raw_data s =
     (case class_loop predictions [] of
        Inl e \<Rightarrow> Inl e
      | Inr predicted_classes \<Rightarrow> Inr (json_dumps predicted_classes),
      s\<lparr>printed := printed s @ [''Data:'' @ str_data L data @ '' - Predictions:''
                                 @ str_predictions L predictions]\<rparr>)"
  using assms by (simp add: run_def Let_def split: sum.splits)

text \<open>
  Claim C1.  For a request that parses to a JSON object whose \<open>data\<close> field holds \<open>n\<close>
  feature rows, scored by the loaded model with one label per row, each label 0 or 1,
  \<open>run\<close> returns \<open>json.dumps\<close> of a list of exactly \<open>n\<close> class names, whose \<open>i\<close>-th entry
  is \<open>not-diabetic\<close> where the model predicts 0 for row \<open>i\<close> and \<open>diabetic\<close> where it
  predicts 1.
\<close>

theorem run_returns_class_labels:
  assumes "json_loads L raw_data = Inr (JObj kvs)"
    and "map_of kvs ''data'' = Some (JArr rows)"
    and "np_array L (JArr rows) = Inr np_data"
    and "model s = Some m"
    and "model_predict L m np_data = Inr predictions"
    and "length predictions = length rows"
    and "\<forall>p \<in> set predictions. p = 0 \<or> p = 1"
  shows "\<exists>labels. fst (run L raw_data s) = Inr (json_dumps labels)
           \<and> length labels = length rows
           \<and> (\<forall>i < length rows.
                 (predictions ! i = 0 \<longrightarrow> labels ! i = ''not-diabetic'')
               \<and> (predictions ! i = 1 \<longrightarrow> labels ! i = ''diabetic''))"
proof -
  from assms(7) have "\<forall>p \<in> set predictions. - 2 \<le> p \<and> p \<le> 1"
    by auto
  then have loop: "class_loop predictions [] = Inr (map wrapped_name predictions)"
    by (rule class_loop_in_bounds)
  have "getitem_str (JObj kvs) ''data'' = Inr (JArr rows)"
    using assms(2) by simp
  from run_scored [OF assms(1) this assms(3) assms(4) assms(5)] loop
  have "fst (run L raw_data s) = Inr (json_dumps (map wrapped_name predictions))"
    by simp
  moreover have "length (map wrapped_name predictions) = length rows"
    using assms(6) by simp
  moreover have "\<forall>i < length rows.
      (predictions ! i = 0 \<longrightarrow> map wrapped_name predictions ! i = ''not-diabetic'')
    \<and> (predictions ! i = 1 \<longrightarrow> map wrapped_name predictions ! i = ''diabetic'')"
    using assms(6) by (simp add: wrapped_name_def)
  ultimately show ?thesis
    by blast
qed

theorem run_returns_class_labels_witness:
  "fst (run demo_serving ''binary'' demo_service)
     = Inr (json_dumps [''diabetic'', ''not-diabetic''])
   \<and> json_dumps [''diabetic'', ''not-diabetic'']
     = [CHR 0x5B, CHR 0x22] @ ''diabetic'' @ [CHR 0x22] @ '', '' @ [CHR 0x22]
         @ ''not-diabetic'' @ [CHR 0x22, CHR 0x5D]"
proof -
  obtain labels where r: "fst (run demo_serving ''binary'' demo_service) = Inr (json_dumps labels)"
    and n: "length labels = length [JArr [JNum 1], JArr [JNum 0]]"
    and l: "\<forall>i < length [JArr [JNum 1], JArr [JNum 0]].
              ([1, 0 :: int] ! i = 0 \<longrightarrow> labels ! i = ''not-diabetic'')
            \<and> ([1, 0 :: int] ! i = 1 \<longrightarrow> labels ! i = ''diabetic'')"
    using run_returns_class_labels [where L = demo_serving and raw_data = "''binary''"
        and kvs = "[(''data'', JArr [JArr [JNum 1], JArr [JNum 0]])]"
        and rows = "[JArr [JNum 1], JArr [JNum 0]]" and np_data = "[1, 0]"
        and s = demo_service and m = 0 and predictions = "[1, 0]"]
    by (auto simp add: demo_serving_def demo_service_def)
  from l have "labels ! 0 = ''diabetic''" and "labels ! 1 = ''not-diabetic''"
    by simp_all
  moreover from n obtain a b where "labels = [a, b]"
    by (cases labels; cases "tl labels") auto
  ultimately have "labels = [''diabetic'', ''not-diabetic'']"
    by simp
  with r show ?thesis
    by (simp add: json_dumps_def encode_str_def escape_char_def)
qed

text \<open>
  Claim C5.  \<open>run\<close> has no error handling of its own.  When \<open>json.loads\<close> raises, when
  the loaded value has no \<open>data\<close> key (a dict without it raises \<open>KeyError\<close>; any other
  failing subscript raises as well), or when building the array or the model's
  \<open>predict\<close> raises, \<open>run\<close> ends with that very exception instead of a value, and the
  module state (the global \<open>model\<close>, and the output printed so far) is as it was.  In
  every case the global \<open>model\<close> is left as it was.
\<close>

theorem run_propagates_errors:
  "(json_loads L raw_data = Inl e \<longrightarrow> run L raw_data s = (Inl e, s))
   \<and> (json_loads L raw_data = Inr loaded \<and> getitem_str loaded ''data'' = Inl e
        \<longrightarrow> run L raw_data s = (Inl e, s))
   \<and> (json_loads L raw_data = Inr (JObj kvs) \<and> ''data'' \<notin> fst ` set kvs
        \<longrightarrow> run L raw_data s = (Inl (KeyError ''data''), s))
   \<and> (json_loads L raw_data = Inr loaded \<and> getitem_str loaded ''data'' = Inr data
        \<and> np_array L data = Inl e
        \<longrightarrow> run L raw_data s = (Inl e, s))
   \<and> (json_loads L raw_data = Inr loaded \<and> getitem_str loaded ''data'' = Inr data
        \<and> np_array L data = Inr np_data \<and> model s = Some m
        \<and> model_predict L m np_data = Inl e
        \<longrightarrow> run L raw_data s = (Inl e, s))
   \<and> model (snd (run L raw_data s)) = model s"
proof -
  have a: "json_loads L raw_data = Inl e \<longrightarrow> run L raw_data s = (Inl e, s)"
    by (simp add: run_def)
  have b: "json_loads L raw_data = Inr loaded \<and> getitem_str loaded ''data'' = Inl e
        \<longrightarrow> run L raw_data s = (Inl e, s)"
    by (simp add: run_def)
  have c: "json_loads L raw_data = Inr (JObj kvs) \<and> ''data'' \<notin> fst ` set kvs
        \<longrightarrow> run L raw_data s = (Inl (KeyError ''data''), s)"
  proof
    assume h: "json_loads L raw_data = Inr (JObj kvs) \<and> ''data'' \<notin> fst ` set kvs"
    then have "map_of kvs ''data'' = None"
      by (simp add: map_of_eq_None_iff)
    with h show "run L raw_data s = (Inl (KeyError ''data''), s)"
      by (simp add: run_def)
  qed
  have d: "json_loads L raw_data = Inr loaded \<and> getitem_str loaded ''data'' = Inr data
        \<and> np_array L data = Inl e
        \<longrightarrow> run L raw_data s = (Inl e, s)"
    by (simp add: run_def)
  have f: "json_loads L raw_data = Inr loaded \<and> getitem_str loaded ''data'' = Inr data
        \<and> np_array L data = Inr np_data \<and> model s = Some m
        \<and> model_predict L m np_data = Inl e
        \<longrightarrow> run L raw_data s = (Inl e, s)"
    by (simp add: run_def)
  have g: "model (snd (run L raw_data s)) = model s"
    by (simp add: run_def Let_def split: sum.splits option.splits)
  from a b c d f g show ?thesis
    by blast
qed

theorem run_propagates_errors_witness:
  "run demo_serving ''{not json'' demo_service = (Inl JSONDecodeError, demo_service)
   \<and> run demo_serving ''nodata'' demo_service = (Inl (KeyError ''data''), demo_service)
   \<and> run demo_serving ''scalar'' demo_service = (Inl ValueError, demo_service)
   \<and> run demo_serving ''empty'' demo_service = (Inl ValueError, demo_service)
   \<and> model (snd (run demo_serving ''good'' demo_service)) = Some 0"
proof -
  have 1: "run demo_serving ''{not json'' demo_service = (Inl JSONDecodeError, demo_service)"
    using run_propagates_errors [where L = demo_serving and raw_data = "''{not json''"
        and e = JSONDecodeError and s = demo_service, THEN conjunct1]
    by (simp add: demo_serving_def)
  have 2: "run demo_serving ''nodata'' demo_service = (Inl (KeyError ''data''), demo_service)"
    using run_propagates_errors [where L = demo_serving and raw_data = "''nodata''"
        and loaded = "JObj [(''rows'', demo_rows)]" and e = "KeyError ''data''"
        and s = demo_service, THEN conjunct2, THEN conjunct1]
    by (simp add: demo_serving_def)
  have 3: "run demo_serving ''nodata'' demo_service = (Inl (KeyError ''data''), demo_service)"
    using run_propagates_errors [where L = demo_serving and raw_data = "''nodata''"
        and kvs = "[(''rows'', demo_rows)]" and s = demo_service,
        THEN conjunct2, THEN conjunct2, THEN conjunct1]
    by (simp add: demo_serving_def)
  have 4: "run demo_serving ''scalar'' demo_service = (Inl ValueError, demo_service)"
    using run_propagates_errors [where L = demo_serving and raw_data = "''scalar''"
        and loaded = "JObj [(''data'', JNum 1)]" and data = "JNum 1" and e = ValueError
        and s = demo_service, THEN conjunct2, THEN conjunct2, THEN conjunct2, THEN conjunct1]
    by (simp add: demo_serving_def)
  have 5: "run demo_serving ''empty'' demo_service = (Inl ValueError, demo_service)"
    using run_propagates_errors [where L = demo_serving and raw_data = "''empty''"
        and loaded = "JObj [(''data'', JArr [])]" and data = "JArr []" and np_data = "[]"
        and m = 0 and e = ValueError and s = demo_service,
        THEN conjunct2, THEN conjunct2, THEN conjunct2, THEN conjunct2, THEN conjunct1]
    by (simp add: demo_serving_def demo_service_def)
  have 6: "model (snd (run demo_serving ''good'' demo_service)) = Some 0"
    using run_propagates_errors [where L = demo_serving and raw_data = "''good''"
        and s = demo_service,
        THEN conjunct2, THEN conjunct2, THEN conjunct2, THEN conjunct2, THEN conjunct2]
    by (simp add: demo_service_def)
  from 1 2 3 4 5 6 show ?thesis
    by simp
qed

text \<open>
  Claim C8.  The lookup \<open>classnames[prediction]\<close> addresses one of the two entries
  directly only for the labels 0 and 1.  Given the predictions of the loaded model: if
  some label is above 1 or below -2, \<open>run\<close> raises \<open>IndexError\<close>; otherwise it returns,
  and a label -1 or -2 is silently taken from the end of the list (-1 gives
  \<open>diabetic\<close>, -2 gives \<open>not-diabetic\<close>).  So whenever some label is outside \<open>{0, 1}\<close>,
  \<open>run\<close> either fails with the out-of-bounds lookup or, some label being negative,
  wraps around.
\<close>

theorem run_label_out_of_range:
  assumes "json_loads L raw_data = Inr loaded"
    and "getitem_str loaded ''data'' = Inr data"
    and "np_array L data = Inr np_data"
    and "model s = Some m"
    and "model_predict L m np_data = Inr predictions"
  shows "(\<forall>p. (0 \<le> p \<and> p < int (length classnames)) = (p = 0 \<or> p = 1))
    \<and> fst (run L raw_data s) =
        (if \<forall>p \<in> set predictions. - 2 \<le> p \<and> p \<le> 1
         then Inr (json_dumps (map wrapped_name predictions))
         else Inl IndexError)
    \<and> ((\<exists>p \<in> set predictions. p \<noteq> 0 \<and> p \<noteq> 1) \<longrightarrow>
          fst (run L raw_data s) = Inl IndexError
        \<or> ((\<exists>p \<in> set predictions. p < 0)
            \<and> fst (run L raw_data s) = Inr (json_dumps (map wrapped_name predictions))))"
proof -
  have bounds: "\<forall>p. (0 \<le> p \<and> p < int (length classnames)) = (p = 0 \<or> p = 1)"
    by (auto simp add: classnames_def)
  have r: "fst (run L raw_data s) =
      (case class_loop predictions [] of
         Inl e \<Rightarrow> Inl e
       | Inr predicted_classes \<Rightarrow> Inr (json_dumps predicted_classes))"
    using run_scored [OF assms] by simp
  have res: "fst (run L raw_data s) =
        (if \<forall>p \<in> set predictions. - 2 \<le> p \<and> p \<le> 1
         then Inr (json_dumps (map wrapped_name predictions))
         else Inl IndexError)"
  proof (cases "\<forall>p \<in> set predictions. - 2 \<le> p \<and> p \<le> 1")
    case True
    then show ?thesis
      using r class_loop_in_bounds [of predictions] by simp
  next
    case False
    then have "\<exists>p \<in> set predictions. p < - 2 \<or> 1 < p"
      by (auto simp add: not_le)
    then have "class_loop predictions [] = Inl IndexError"
      by (rule class_loop_out_of_bounds)
    with False r show ?thesis
      by simp
  qed
  have "(\<exists>p \<in> set predictions. p \<noteq> 0 \<and> p \<noteq> 1) \<longrightarrow>
          fst (run L raw_data s) = Inl IndexError
        \<or> ((\<exists>p \<in> set predictions. p < 0)
            \<and> fst (run L raw_data s) = Inr (json_dumps (map wrapped_name predictions)))"
  proof (cases "\<forall>p \<in> set predictions. - 2 \<le> p \<and> p \<le> 1")
    case False
    with res show ?thesis by simp
  next
    case True
    have "(\<exists>p \<in> set predictions. p \<noteq> 0 \<and> p \<noteq> 1) \<longrightarrow> (\<exists>p \<in> set predictions. p < 0)"
    proof
      assume "\<exists>p \<in> set predictions. p \<noteq> 0 \<and> p \<noteq> 1"
      then obtain p where "p \<in> set predictions" and "p \<noteq> 0" and "p \<noteq> 1"
        by blast
      moreover from True \<open>p \<in> set predictions\<close> have "- 2 \<le> p \<and> p \<le> 1"
        by blast
      ultimately have "p \<in> set predictions \<and> p < 0"
        by simp
      then show "\<exists>p \<in> set predictions. p < 0"
        by blast
    qed
    with True res show ?thesis by simp
  qed
  with bounds res show ?thesis
    by blast
qed

theorem run_label_out_of_range_witness:
  "fst (run demo_serving ''good'' (demo_service\<lparr>model := Some 1\<rparr>)) = Inl IndexError
   \<and> fst (run demo_serving ''good'' (demo_service\<lparr>model := Some (- 2)\<rparr>))
       = Inr (json_dumps [''not-diabetic'', ''not-diabetic'', ''diabetic''])"
proof -
  have 1: "fst (run demo_serving ''good'' (demo_service\<lparr>model := Some 1\<rparr>)) = Inl IndexError"
    using run_label_out_of_range [where L = demo_serving and raw_data = "''good''"
        and loaded = "JObj [(''data'', demo_rows)]" and data = demo_rows
        and np_data = "[2, 0, 1]" and s = "demo_service\<lparr>model := Some 1\<rparr>" and m = 1
        and predictions = "[3, 1, 2]"]
    by (simp add: demo_serving_def demo_service_def demo_rows_def)
  have 2: "fst (run demo_serving ''good'' (demo_service\<lparr>model := Some (- 2)\<rparr>))
       = Inr (json_dumps [''not-diabetic'', ''not-diabetic'', ''diabetic''])"
    using run_label_out_of_range [where L = demo_serving and raw_data = "''good''"
        and loaded = "JObj [(''data'', demo_rows)]" and data = demo_rows
        and np_data = "[2, 0, 1]" and s = "demo_service\<lparr>model := Some (- 2)\<rparr>" and m = "- 2"
        and predictions = "[0, - 2, - 1]"]
    by (simp add: demo_serving_def demo_service_def demo_rows_def wrapped_name_def)
  from 1 2 show ?thesis
    by simp
qed

section \<open>Properties of the training scripts\<close>

text \<open>When a statement returns normally: what it returned and the world it leaves.\<close>

lemma seq_Inr:
  "seq p f w = (Inr y, w') \<longleftrightarrow> (\<exists>x w1. p w = (Inr x, w1) \<and> f x w1 = (Inr y, w'))"
  by (auto simp add: seq_def split: prod.splits sum.splits)

lemma call_Inr: "call st r w = (Inr x, w1) \<longleftrightarrow> r = Inr x \<and> w1 = w\<lparr>trace := trace w @ [st]\<rparr>"
  by (auto simp add: call_def)

lemma pure_Inr: "pure r w = (Inr x, w1) \<longleftrightarrow> r = Inr x \<and> w1 = w"
  by (auto simp add: pure_def)

lemma print_Inr: "print l w = (Inr x, w1) \<longleftrightarrow> w1 = w\<lparr>stdout := stdout w @ [l]\<rparr>"
  by (auto simp add: print_def)

lemma run_log_Inr:
  "run_log n v w = (Inr x, w1) \<longleftrightarrow>
     w1 = w\<lparr>trace := trace w @ [LogScalar n], metrics := metrics w @ [(n, v)]\<rparr>"
  by (auto simp add: run_log_def)

lemma run_complete_Inr:
  "run_complete w = (Inr x, w1) \<longleftrightarrow> w1 = w\<lparr>trace := trace w @ [Complete], completed := True\<rparr>"
  by (auto simp add: run_complete_def)

lemma split_Inr:
  "train_test_split L X y t (Some sd) w = (Inr x, w1) \<longleftrightarrow>
     split_seeded L sd t X y = Inr x \<and> w1 = w\<lparr>trace := trace w @ [TrainTestSplit t (Some sd)]\<rparr>"
  by (auto simp add: train_test_split_def)

lemma fit_tree_Inr:
  "fit_decision_tree L X y w = (Inr x, w1) \<longleftrightarrow>
     (\<exists>g. fit_tree L (global_rng w) X y = (Inr x, g)
        \<and> w1 = w\<lparr>trace := trace w @ [FitDecisionTree], global_rng := g\<rparr>)"
  by (auto simp add: fit_decision_tree_def split: prod.splits)

lemma fit_logistic_Inr:
  "fit_logistic_regression L C sv X y w = (Inr x, w1) \<longleftrightarrow>
     (\<exists>g. fit_logistic L (global_rng w) C sv X y = (Inr x, g)
        \<and> w1 = w\<lparr>trace := trace w @ [FitLogisticRegression C sv], global_rng := g\<rparr>)"
  by (auto simp add: fit_logistic_regression_def split: prod.splits)

lemma makedirs_Inr:
  "makedirs p w = (Inr x, w1) \<longleftrightarrow>
     files w p = None \<and> w1 = w\<lparr>trace := trace w @ [MakeDirs p], dirs := insert p (dirs w)\<rparr>"
  by (auto simp add: makedirs_def)

lemma joblib_dump_Inr:
  "joblib_dump v p w = (Inr x, w1) \<longleftrightarrow>
     p \<notin> dirs w \<and> (dirname p = [] \<or> dirname p \<in> dirs w)
     \<and> w1 = w\<lparr>trace := trace w @ [Serialize p], files := (files w)(p \<mapsto> Pickled v)\<rparr>"
  by (auto simp add: joblib_dump_def)

lemma auc_of_Inr:
  "auc_of L y sc = Inr a \<longleftrightarrow> (\<exists>s. column1 sc = Inr s \<and> roc_auc_score L y s = Inr a)"
  by (auto simp add: auc_of_def split: sum.splits)

lemma roc_of_Inr:
  "roc_of L y sc = Inr a \<longleftrightarrow> (\<exists>s. column1 sc = Inr s \<and> roc_curve L y s = Inr a)"
  by (auto simp add: roc_of_def split: sum.splits)

lemma input_dataframe_Inr:
  "input_dataframe L n = Inr d \<longleftrightarrow> input_datasets L n = Some (Inr d)"
  by (auto simp add: input_dataframe_def split: option.splits)

lemma plt_figure_Inr:
  "plt_figure sz w = (Inr x, w1) \<longleftrightarrow>
     x = length (figures w)
     \<and> w1 = w\<lparr>trace := trace w @ [NewFigure], figures := figures w @ [new_figure sz]\<rparr>"
  by (auto simp add: plt_figure_def)

lemma on_current_Inr:
  "on_current st f w = (Inr x, w1) \<longleftrightarrow>
     w1 = w\<lparr>trace := trace w @ [st],
            figures := (if figures w = [] then [f (new_figure (32 / 5, 24 / 5))]
                        else butlast (figures w) @ [f (last (figures w))])\<rparr>"
  by (auto simp add: on_current_def Let_def)

lemma run_log_image_Inr:
  "run_log_image n fig w = (Inr x, w1) \<longleftrightarrow>
     fig < length (figures w)
     \<and> w1 = w\<lparr>trace := trace w @ [LogImage n], images := images w @ [(n, figures w ! fig)]\<rparr>"
  by (auto simp add: run_log_image_def)

lemmas returns_simps = input_dataframe_Inr plt_figure_Inr on_current_Inr run_log_image_Inr auc_of_Inr
  roc_of_Inr seq_Inr call_Inr pure_Inr print_Inr run_log_Inr run_complete_Inr split_Inr
  fit_tree_Inr fit_logistic_Inr makedirs_Inr joblib_dump_Inr


lemma dirname_model: "dirname ''outputs/diabetes_model.pkl'' = ''outputs''"
  by (simp add: dirname_def)

lemma datastore_training_Inr:
  "datastore_training L argv w = (Inr u, w') \<longleftrightarrow>
    (\<exists>a all_files diabetes X y X_train X_test y_train y_test C fitted g y_hat y_scores s auc.
      parse_args L argv = Inr a
    \<and> listdir L (case data_folder a of None \<Rightarrow> ''.'' | Some d \<Rightarrow> d) = Inr all_files
    \<and> load_folder L (data_folder a) all_files = Inr diabetes
    \<and> features_and_labels diabetes = Inr (X, y)
    \<and> split_seeded L 0 (3 / 10) X y = Inr (X_train, X_test, y_train, y_test)
    \<and> one_div (reg_rate a) = Inr C
    \<and> fit_logistic L (global_rng w) C ''liblinear'' X_train y_train = (Inr fitted, g)
    \<and> predict L fitted X_test = Inr y_hat
    \<and> predict_proba L fitted X_test = Inr y_scores
    \<and> column1 y_scores = Inr s
    \<and> roc_auc_score L y_test s = Inr auc
    \<and> files w ''outputs'' = None
    \<and> ''outputs/diabetes_model.pkl'' \<notin> dirs w
    \<and> w' = w\<lparr>global_rng := g,
          trace := trace w @ [ParseArgs, GetContext, ListDir, ReadConcat, SelectColumns,
            TrainTestSplit (3 / 10) (Some 0), LogScalar ''Regularization Rate'',
            FitLogisticRegression C ''liblinear'', Predict, ComputeAccuracy,
            LogScalar ''Accuracy'', PredictProba, ComputeAUC, LogScalar ''AUC'',
            MakeDirs ''outputs'', Serialize ''outputs/diabetes_model.pkl'', Complete],
          stdout := stdout w @ [''Loading data from '' @ str_opt (data_folder a),
            ''Training a logistic regression model with regularization rate of ''
              @ str_float L (reg_rate a),
            ''Accuracy: '' @ str_float L (np_average (np_equal y_hat y_test)),
            ''AUC: '' @ str_float L auc],
          metrics := metrics w @ [(''Regularization Rate'', reg_rate a),
            (''Accuracy'', np_average (np_equal y_hat y_test)), (''AUC'', auc)],
          dirs := insert ''outputs'' (dirs w),
          files := (files w)(''outputs/diabetes_model.pkl'' \<mapsto> Pickled fitted),
          completed := True\<rparr>)"
  unfolding datastore_training_def datastore_split_fit_score_def
  apply (rule iffI)
   apply (clarsimp simp add: returns_simps np_float_def dirname_model)
  apply (clarsimp simp add: returns_simps np_float_def dirname_model)
  done


lemma tree_training_Inr:
  "tree_training L w = (Inr u, w') \<longleftrightarrow>
    (\<exists>diabetes X y X_train X_test y_train y_test fitted g y_hat y_scores s auc
            fpr tpr thresholds.
      input_datasets L ''diabetes'' = Some (Inr diabetes)
    \<and> features_and_labels diabetes = Inr (X, y)
    \<and> split_seeded L 0 (3 / 10) X y = Inr (X_train, X_test, y_train, y_test)
    \<and> fit_tree L (global_rng w) X_train y_train = (Inr fitted, g)
    \<and> predict L fitted X_test = Inr y_hat
    \<and> predict_proba L fitted X_test = Inr y_scores
    \<and> column1 y_scores = Inr s
    \<and> roc_auc_score L y_test s = Inr auc
    \<and> roc_curve L y_test s = Inr (fpr, tpr, thresholds)
    \<and> files w ''outputs'' = None
    \<and> ''outputs/diabetes_model.pkl'' \<notin> dirs w
    \<and> w' = w\<lparr>global_rng := g,
          trace := trace w @ [GetContext, ReadDataset, SelectColumns,
            TrainTestSplit (3 / 10) (Some 0), FitDecisionTree, Predict, ComputeAccuracy,
            LogScalar ''Accuracy'', PredictProba, ComputeAUC, LogScalar ''AUC'', RocCurve,
            NewFigure, PlotLine, PlotLine, SetXLabel, SetYLabel, SetTitle, LogImage ''ROC'',
            ShowPlot, MakeDirs ''outputs'', Serialize ''outputs/diabetes_model.pkl'', Complete],
          stdout := stdout w @ [''Loading Data...'', ''Training a decision tree model'',
            ''Accuracy: '' @ str_float L (np_average (np_equal y_hat y_test)),
            ''AUC: '' @ str_float L auc],
          metrics := metrics w @ [(''Accuracy'', np_average (np_equal y_hat y_test)),
            (''AUC'', auc)],
          images := images w @ [(''ROC'', roc_figure fpr tpr)],
          figures := figures w @ [roc_figure fpr tpr],
          dirs := insert ''outputs'' (dirs w),
          files := (files w)(''outputs/diabetes_model.pkl'' \<mapsto> Pickled fitted),
          completed := True\<rparr>)"
  unfolding tree_training_def tree_split_fit_score_def
  apply (rule iffI)
   apply (clarsimp simp add: returns_simps np_float_def dirname_model plt_plot_def plt_xlabel_def
      plt_ylabel_def plt_title_def roc_figure_def new_figure_def)
  apply (clarsimp simp add: returns_simps np_float_def dirname_model plt_plot_def plt_xlabel_def
      plt_ylabel_def plt_title_def roc_figure_def new_figure_def)
  done

lemma datastore_returnsE:
  assumes "datastore_training L argv w = (Inr u, w')"
  obtains a all_files diabetes X y X_train X_test y_train y_test C fitted g y_hat y_scores s auc
  where "parse_args L argv = Inr a"
    and "listdir L (case data_folder a of None \<Rightarrow> ''.'' | Some d \<Rightarrow> d) = Inr all_files"
    and "load_folder L (data_folder a) all_files = Inr diabetes"
    and "features_and_labels diabetes = Inr (X, y)"
    and "split_seeded L 0 (3 / 10) X y = Inr (X_train, X_test, y_train, y_test)"
    and "one_div (reg_rate a) = Inr C"
    and "fit_logistic L (global_rng w) C ''liblinear'' X_train y_train = (Inr fitted, g)"
    and "predict L fitted X_test = Inr y_hat"
    and "predict_proba L fitted X_test = Inr y_scores"
    and "column1 y_scores = Inr s"
    and "roc_auc_score L y_test s = Inr auc"
    and "files w ''outputs'' = None"
    and "''outputs/diabetes_model.pkl'' \<notin> dirs w"
    and "w' = w\<lparr>global_rng := g,
          trace := trace w @ [ParseArgs, GetContext, ListDir, ReadConcat, SelectColumns,
            TrainTestSplit (3 / 10) (Some 0), LogScalar ''Regularization Rate'',
            FitLogisticRegression C ''liblinear'', Predict, ComputeAccuracy,
            LogScalar ''Accuracy'', PredictProba, ComputeAUC, LogScalar ''AUC'',
            MakeDirs ''outputs'', Serialize ''outputs/diabetes_model.pkl'', Complete],
          stdout := stdout w @ [''Loading data from '' @ str_opt (data_folder a),
            ''Training a logistic regression model with regularization rate of ''
              @ str_float L (reg_rate a),
            ''Accuracy: '' @ str_float L (np_average (np_equal y_hat y_test)),
            ''AUC: '' @ str_float L auc],
          metrics := metrics w @ [(''Regularization Rate'', reg_rate a),
            (''Accuracy'', np_average (np_equal y_hat y_test)), (''AUC'', auc)],
          dirs := insert ''outputs'' (dirs w),
          files := (files w)(''outputs/diabetes_model.pkl'' \<mapsto> Pickled fitted),
          completed := True\<rparr>"
  using assms unfolding datastore_training_Inr by blast

lemma tree_returnsE:
  assumes "tree_training L w = (Inr u, w')"
  obtains diabetes X y X_train X_test y_train y_test fitted g y_hat y_scores s auc fpr tpr thresholds
  where "input_datasets L ''diabetes'' = Some (Inr diabetes)"
    and "features_and_labels diabetes = Inr (X, y)"
    and "split_seeded L 0 (3 / 10) X y = Inr (X_train, X_test, y_train, y_test)"
    and "fit_tree L (global_rng w) X_train y_train = (Inr fitted, g)"
    and "predict L fitted X_test = Inr y_hat"
    and "predict_proba L fitted X_test = Inr y_scores"
    and "column1 y_scores = Inr s"
    and "roc_auc_score L y_test s = Inr auc"
    and "roc_curve L y_test s = Inr (fpr, tpr, thresholds)"
    and "files w ''outputs'' = None"
    and "''outputs/diabetes_model.pkl'' \<notin> dirs w"
    and "w' = w\<lparr>global_rng := g,
          trace := trace w @ [GetContext, ReadDataset, SelectColumns,
            TrainTestSplit (3 / 10) (Some 0), FitDecisionTree, Predict, ComputeAccuracy,
            LogScalar ''Accuracy'', PredictProba, ComputeAUC, LogScalar ''AUC'', RocCurve,
            NewFigure, PlotLine, PlotLine, SetXLabel, SetYLabel, SetTitle, LogImage ''ROC'',
            ShowPlot, MakeDirs ''outputs'', Serialize ''outputs/diabetes_model.pkl'', Complete],
          stdout := stdout w @ [''Loading Data...'', ''Training a decision tree model'',
            ''Accuracy: '' @ str_float L (np_average (np_equal y_hat y_test)),
            ''AUC: '' @ str_float L auc],
          metrics := metrics w @ [(''Accuracy'', np_average (np_equal y_hat y_test)),
            (''AUC'', auc)],
          images := images w @ [(''ROC'', roc_figure fpr tpr)],
          figures := figures w @ [roc_figure fpr tpr],
          dirs := insert ''outputs'' (dirs w),
          files := (files w)(''outputs/diabetes_model.pkl'' \<mapsto> Pickled fitted),
          completed := True\<rparr>"
  using assms unfolding tree_training_Inr by blast

lemma split_four:
  assumes "permutation_seeded L 0 (length [a, b, c, d]) = [0..<4]"
  shows "split_seeded L 0 (3 / 10) [a, b, c, d] [k, l, m, n]
     = Inr ([c, d], [a, b], [m, n], [k, l])"
proof -
  have "\<lceil>6 / 5 :: rat\<rceil> = 2"
    by (simp add: ceiling_eq_iff)
  moreover have "[0..<4] = [0, 1, 2, 3 :: nat]"
    by (simp add: upt_rec)
  ultimately show ?thesis
    using assms by (simp add: split_seeded_def split_by_def Let_def)
qed

lemma demo_split_four:
  "split_seeded demo_lib 0 (3 / 10) [a, b, c, d] [k, l, m, n]
     = Inr ([c, d], [a, b], [m, n], [k, l])"
  by (rule split_four) (simp add: demo_lib_def eval_nat_numeral)

lemma demo_lib_fields:
  "py_float demo_lib = (\<lambda>s. if s = ''0.5'' then Some (Finite (1 / 2))
                        else if s = ''0'' then Some (Finite 0) else None)"
  "str_float demo_lib = (\<lambda>_. ''<float>'')"
  "listdir demo_lib = (\<lambda>d. if d = ''data'' then Inr [''a.csv'', ''b.csv'']
                       else if d = ''mixed'' then Inr [''a.csv'', ''notes.bin'']
                       else if d = ''text'' then Inr [''a.csv'', ''notes.txt'']
                       else if d = ''short'' then Inr [''c.csv'']
                       else Inl FileNotFoundError)"
  "read_csv demo_lib = (\<lambda>p. if p = ''data/a.csv'' \<or> p = ''mixed/a.csv'' \<or> p = ''text/a.csv''
                          then Inr demo_frame_a
                        else if p = ''data/b.csv'' \<or> p = ''text/notes.txt'' then Inr demo_frame_b
                        else if p = ''short/c.csv'' then Inr demo_frame_c
                        else Inl (LibraryError ''ParserError''))"
  "pd_concat demo_lib = demo_concat"
  "input_datasets demo_lib = (\<lambda>n. if n = ''diabetes''
                              then Some (demo_concat [demo_frame_a, demo_frame_b]) else None)"
  "fit_logistic demo_lib = (\<lambda>g C solver X y. (Inr 110, Suc g))"
  "fit_tree demo_lib = (\<lambda>g X y. (Inr 180, Suc g))"
  "predict demo_lib = (\<lambda>m X. Inr (map (\<lambda>r. if m \<le> r ! 1 then 1 else 0) X))"
  "predict_proba demo_lib = (\<lambda>m X. Inr (map (\<lambda>r. if m \<le> r ! 1 then [0, 1] else [1, 0]) X))"
  "roc_auc_score demo_lib = (\<lambda>y s. Inr (Finite (3 / 4)))"
  "roc_curve demo_lib = (\<lambda>y s. Inr ([0, 0, 1], [0, 1, 1], [2, 1, 0]))"
  by (simp_all add: demo_lib_def)

lemmas demo_defs = demo_lib_fields demo_world_def demo_argv_def demo_concat_def demo_split_four
  demo_frame_a_def demo_frame_b_def demo_frame_c_def demo_columns_def

lemmas table_defs = features_and_labels_def select_columns_def select_column_def
  feature_columns_def column1_def parse_args_def load_folder_def path_join_def

lemma demo_tree_returns: "\<exists>w'. tree_training demo_lib demo_world = (Inr (), w')"
  by (simp add: tree_training_Inr demo_defs table_defs)

lemma demo_datastore_returns:
  "\<exists>w'. datastore_training demo_lib demo_argv demo_world = (Inr (), w')"
  by (simp add: datastore_training_Inr demo_defs table_defs)

lemma tree_trace:
  "tree_training L w = (Inr u, w') \<Longrightarrow> trace w' = trace w @ tree_steps"
  by (auto simp add: tree_training_Inr tree_steps_def)

lemma datastore_trace:
  "datastore_training L argv w = (Inr u, w') \<Longrightarrow>
     \<exists>a C. parse_args L argv = Inr a \<and> one_div (reg_rate a) = Inr C
       \<and> trace w' = trace w @ datastore_steps C"
  by (auto simp add: datastore_training_Inr datastore_steps_def)

lemma column1_Inr: "column1 a = Inr s \<Longrightarrow> s = map (\<lambda>r. r ! 1) a"
  by (auto simp add: column1_def split: if_splits)

lemma np_average_matches:
  assumes "length xs = length ys" and "ys \<noteq> []"
  shows "np_average (np_equal xs ys) =
     Finite (of_nat (card {i. i < length ys \<and> xs ! i = ys ! i}) / of_nat (length ys))"
proof -
  have "filter (\<lambda>b. b) (map (\<lambda>(x, y). x = y) (zip xs ys))
      = map (\<lambda>(x, y). x = y) (filter (\<lambda>p. fst p = snd p) (zip xs ys))"
    by (simp add: filter_map comp_def case_prod_beta)
  then have "length (filter (\<lambda>b. b) (map (\<lambda>(x, y). x = y) (zip xs ys)))
      = length (filter (\<lambda>p. fst p = snd p) (zip xs ys))"
    by simp
  also have "\<dots> = card {i. i < length (zip xs ys) \<and> fst (zip xs ys ! i) = snd (zip xs ys ! i)}"
    by (rule length_filter_conv_card)
  also have "{i. i < length (zip xs ys) \<and> fst (zip xs ys ! i) = snd (zip xs ys ! i)}
      = {i. i < length ys \<and> xs ! i = ys ! i}"
    using assms(1) by auto
  finally have n: "length (filter (\<lambda>b. b) (map (\<lambda>(x, y). x = y) (zip xs ys)))
      = card {i. i < length ys \<and> xs ! i = ys ! i}" .
  from assms have "zip xs ys \<noteq> []"
    by (cases xs; cases ys) auto
  with n assms(1) show ?thesis
    by (simp add: np_average_def np_equal_def)
qed

text \<open>
  Claim C2, as the code has it.  A run of a training script that ends normally makes its
  calls in exactly this order: read the arguments or the dataset, select the columns,
  \<open>train_test_split\<close>, \<open>fit\<close>, \<open>predict\<close>, compute the accuracy and log it,
  \<open>predict_proba\<close>, compute the AUC and log it, plot (the decision-tree script only),
  make the output directory, serialize the model, complete the run.  Each metric is
  logged right after it is computed, before the model is serialized.
\<close>

theorem training_steps_in_order:
  "(tree_training L w = (Inr u, w') \<longrightarrow> trace w' = trace w @ tree_steps)
   \<and> (datastore_training L argv w = (Inr u, w') \<longrightarrow>
        (\<exists>a C. parse_args L argv = Inr a \<and> one_div (reg_rate a) = Inr C
           \<and> trace w' = trace w @ datastore_steps C))"
  using tree_trace [of L w u w'] datastore_trace [of L argv w u w'] by blast

theorem training_steps_in_order_witness:
  "trace (snd (tree_training demo_lib demo_world)) = tree_steps
   \<and> trace (snd (datastore_training demo_lib demo_argv demo_world))
       = datastore_steps (Finite 2)"
proof -
  obtain w1 where 1: "tree_training demo_lib demo_world = (Inr (), w1)"
    using demo_tree_returns by blast
  obtain w2 where 2: "datastore_training demo_lib demo_argv demo_world = (Inr (), w2)"
    using demo_datastore_returns by blast
  have "trace w1 = trace demo_world @ tree_steps"
    using training_steps_in_order [where L = demo_lib and w = demo_world and u = "()"
        and w' = w1] 1 by simp
  moreover have "\<exists>a C. parse_args demo_lib demo_argv = Inr a \<and> one_div (reg_rate a) = Inr C
      \<and> trace w2 = trace demo_world @ datastore_steps C"
    using training_steps_in_order [where L = demo_lib and argv = demo_argv and w = demo_world
        and u = "()" and w' = w2] 2 by simp
  then have "trace w2 = trace demo_world @ datastore_steps (Finite 2)"
    by (auto simp add: parse_args_def demo_lib_def demo_argv_def)
  ultimately show ?thesis
    using 1 2 by (simp add: demo_world_def)
qed

text \<open>
  Against claim C2 as stated: in the run of the decision-tree script on the toy instance,
  the accuracy and the AUC are logged before the model is serialized, and
  \<open>predict_proba\<close> is called after the accuracy has been computed and logged, so the
  steps are not in the order the specification lists.
\<close>

theorem metric_logging_precedes_serialization:
  "\<not> metric_logs_follow_serialization (trace (snd (tree_training demo_lib demo_world)))
   \<and> \<not> follows_spec_order (trace (snd (tree_training demo_lib demo_world)))
   \<and> \<not> metric_logs_follow_serialization
         (trace (snd (datastore_training demo_lib demo_argv demo_world)))"
proof -
  obtain w1 where 1: "tree_training demo_lib demo_world = (Inr (), w1)"
    using demo_tree_returns by blast
  obtain w2 where 2: "datastore_training demo_lib demo_argv demo_world = (Inr (), w2)"
    using demo_datastore_returns by blast
  have t1: "trace w1 = tree_steps"
    using tree_trace [OF 1] by (simp add: demo_world_def)
  obtain C where t2: "trace w2 = datastore_steps C"
    using datastore_trace [OF 2] by (auto simp add: demo_world_def)
  have "\<not> metric_logs_follow_serialization tree_steps"
    by (simp add: metric_logs_follow_serialization_def tree_steps_def)
  moreover have "\<not> follows_spec_order tree_steps"
    by (simp add: follows_spec_order_def tree_steps_def List.map_filter_simps)
  moreover have "\<not> metric_logs_follow_serialization (datastore_steps C)"
    by (simp add: metric_logs_follow_serialization_def datastore_steps_def)
  ultimately show ?thesis
    using 1 2 t1 t2 by simp
qed

lemma seq_keeps:
  assumes "\<And>w. K (snd (p w)) = K w" and "\<And>x w. K (snd (f x w)) = K w"
  shows "K (snd (seq p f w)) = K w"
proof (cases "p w")
  case (Pair r w1)
  with assms(1) [of w] have k: "K w1 = K w"
    by simp
  show ?thesis
  proof (cases r)
    case (Inl e)
    with Pair k show ?thesis by (simp add: seq_def)
  next
    case (Inr x)
    with Pair k assms(2) [of x w1] show ?thesis by (simp add: seq_def)
  qed
qed

lemma case_prod_keeps:
  assumes "\<And>a b w. K (snd (f a b w)) = K w"
  shows "K (snd (case_prod f x w)) = K w"
  using assms by (cases x) simp

lemmas step_defs = call_def pure_def print_def run_log_def run_complete_def
  train_test_split_def fit_logistic_regression_def fit_decision_tree_def makedirs_def
  joblib_dump_def

lemma datastore_keeps_images: "images (snd (datastore_training L argv w)) = images w"
  unfolding datastore_training_def datastore_split_fit_score_def
  by (intro seq_keeps [where K = images] case_prod_keeps [where K = images])
    (simp_all add: step_defs split: prod.splits option.splits)

lemma datastore_keeps_figures: "figures (snd (datastore_training L argv w)) = figures w"
  unfolding datastore_training_def datastore_split_fit_score_def
  by (intro seq_keeps [where K = figures] case_prod_keeps [where K = figures])
    (simp_all add: step_defs split: prod.splits option.splits)

text \<open>
  Claim C3.  A run of a training script that ends normally has computed two evaluation
  metrics on the test part of the split and logged each as a scalar: the accuracy, which
  is \<open>np.average(y_hat == y_test)\<close> for the labels \<open>y_hat\<close> the fitted model predicts on
  the test rows, that is the share of test rows whose predicted label equals the true
  one; and the AUC, which is \<open>roc_auc_score\<close> of the test labels and the second column
  (the positive class) of \<open>predict_proba\<close>.  The decision-tree script logs nothing else;
  the datastore script logs the regularization rate before them.
\<close>

theorem training_logs_accuracy_and_auc:
  "(length y_hat = length y_test \<and> y_test \<noteq> [] \<longrightarrow>
      np_average (np_equal y_hat y_test)
        = Finite (of_nat (card {i. i < length y_test \<and> y_hat ! i = y_test ! i})
                   / of_nat (length y_test)))
   \<and> (tree_training L w = (Inr u, w') \<longrightarrow>
      (\<exists>X y X_train X_test y_train y_test fitted g y_hat y_scores auc.
          split_seeded L 0 (3 / 10) X y = Inr (X_train, X_test, y_train, y_test)
        \<and> fit_tree L (global_rng w) X_train y_train = (Inr fitted, g)
        \<and> predict L fitted X_test = Inr y_hat
        \<and> predict_proba L fitted X_test = Inr y_scores
        \<and> roc_auc_score L y_test (map (\<lambda>r. r ! 1) y_scores) = Inr auc
        \<and> metrics w' = metrics w @ [(''Accuracy'', np_average (np_equal y_hat y_test)),
                                      (''AUC'', auc)]))
   \<and> (datastore_training L argv w = (Inr u, w') \<longrightarrow>
      (\<exists>a C X y X_train X_test y_train y_test fitted g y_hat y_scores auc.
          parse_args L argv = Inr a
        \<and> split_seeded L 0 (3 / 10) X y = Inr (X_train, X_test, y_train, y_test)
        \<and> fit_logistic L (global_rng w) C ''liblinear'' X_train y_train = (Inr fitted, g)
        \<and> predict L fitted X_test = Inr y_hat
        \<and> predict_proba L fitted X_test = Inr y_scores
        \<and> roc_auc_score L y_test (map (\<lambda>r. r ! 1) y_scores) = Inr auc
        \<and> metrics w' = metrics w @ [(''Regularization Rate'', reg_rate a),
                                      (''Accuracy'', np_average (np_equal y_hat y_test)),
                                      (''AUC'', auc)]))"
proof (intro conjI impI)
  assume "length y_hat = length y_test \<and> y_test \<noteq> []"
  then show "np_average (np_equal y_hat y_test)
        = Finite (of_nat (card {i. i < length y_test \<and> y_hat ! i = y_test ! i})
                   / of_nat (length y_test))"
    by (simp add: np_average_matches)
next
  assume "tree_training L w = (Inr u, w')"
  then show "\<exists>X y X_train X_test y_train y_test fitted g y_hat y_scores auc.
          split_seeded L 0 (3 / 10) X y = Inr (X_train, X_test, y_train, y_test)
        \<and> fit_tree L (global_rng w) X_train y_train = (Inr fitted, g)
        \<and> predict L fitted X_test = Inr y_hat
        \<and> predict_proba L fitted X_test = Inr y_scores
        \<and> roc_auc_score L y_test (map (\<lambda>r. r ! 1) y_scores) = Inr auc
        \<and> metrics w' = metrics w @ [(''Accuracy'', np_average (np_equal y_hat y_test)),
                                      (''AUC'', auc)]"
    by (rule tree_returnsE) (fastforce dest!: column1_Inr)
next
  assume "datastore_training L argv w = (Inr u, w')"
  then show "\<exists>a C X y X_train X_test y_train y_test fitted g y_hat y_scores auc.
          parse_args L argv = Inr a
        \<and> split_seeded L 0 (3 / 10) X y = Inr (X_train, X_test, y_train, y_test)
        \<and> fit_logistic L (global_rng w) C ''liblinear'' X_train y_train = (Inr fitted, g)
        \<and> predict L fitted X_test = Inr y_hat
        \<and> predict_proba L fitted X_test = Inr y_scores
        \<and> roc_auc_score L y_test (map (\<lambda>r. r ! 1) y_scores) = Inr auc
        \<and> metrics w' = metrics w @ [(''Regularization Rate'', reg_rate a),
                                      (''Accuracy'', np_average (np_equal y_hat y_test)),
                                      (''AUC'', auc)]"
    by (rule datastore_returnsE) (fastforce dest!: column1_Inr)
qed

lemma demo_tree_outcome:
  assumes "tree_training demo_lib demo_world = (Inr (), w')"
  shows "metrics w' = [(''Accuracy'', Finite (1 / 2)), (''AUC'', Finite (3 / 4))]"
    and "images w' = [(''ROC'', roc_figure [0, 0, 1] [0, 1, 1])]"
    and "files w' ''outputs/diabetes_model.pkl'' = Some (Pickled 180)"
  using assms
  by (auto elim!: tree_returnsE simp add: demo_defs table_defs np_average_def np_equal_def)

lemma demo_datastore_outcome:
  assumes "datastore_training demo_lib demo_argv demo_world = (Inr (), w')"
  shows "metrics w' = [(''Regularization Rate'', Finite (1 / 2)), (''Accuracy'', Finite 1),
           (''AUC'', Finite (3 / 4))]"
    and "images w' = []"
    and "files w' ''outputs/diabetes_model.pkl'' = Some (Pickled 110)"
    and "trace w' = datastore_steps (Finite 2)"
  using assms
  by (auto elim!: datastore_returnsE
      simp add: demo_defs table_defs np_average_def np_equal_def datastore_steps_def)

theorem training_logs_accuracy_and_auc_witness:
  "metrics (snd (tree_training demo_lib demo_world))
     = [(''Accuracy'', Finite (1 / 2)), (''AUC'', Finite (3 / 4))]
   \<and> metrics (snd (datastore_training demo_lib demo_argv demo_world))
     = [(''Regularization Rate'', Finite (1 / 2)), (''Accuracy'', Finite 1),
        (''AUC'', Finite (3 / 4))]
   \<and> Finite (of_nat (card {i. i < length [1, 0 :: rat] \<and> [0, 0 :: rat] ! i = [1, 0] ! i})
        / of_nat (length [1, 0 :: rat])) = Finite (1 / 2)"
proof -
  obtain w1 where 1: "tree_training demo_lib demo_world = (Inr (), w1)"
    using demo_tree_returns by blast
  obtain w2 where 2: "datastore_training demo_lib demo_argv demo_world = (Inr (), w2)"
    using demo_datastore_returns by blast
  have "\<exists>acc auc. metrics w1 = metrics demo_world @ [(''Accuracy'', acc), (''AUC'', auc)]"
    using training_logs_accuracy_and_auc [where L = demo_lib and w = demo_world and u = "()"
        and w' = w1, THEN conjunct2, THEN conjunct1] 1 by blast
  moreover have "\<exists>r acc auc. metrics w2 = metrics demo_world
      @ [(''Regularization Rate'', r), (''Accuracy'', acc), (''AUC'', auc)]"
    using training_logs_accuracy_and_auc [where L = demo_lib and argv = demo_argv
        and w = demo_world and u = "()" and w' = w2, THEN conjunct2, THEN conjunct2] 2
    by blast
  moreover have "np_average (np_equal [0, 0] [1, 0])
      = Finite (of_nat (card {i. i < length [1, 0 :: rat] \<and> [0, 0 :: rat] ! i = [1, 0] ! i})
          / of_nat (length [1, 0 :: rat]))"
    using training_logs_accuracy_and_auc [where y_hat = "[0, 0]" and y_test = "[1, 0]",
        THEN conjunct1] by simp
  moreover have "np_average (np_equal [0, 0] [1, 0]) = Finite (1 / 2)"
    by (simp add: np_average_def np_equal_def)
  ultimately show ?thesis
    using 1 2 demo_tree_outcome(1) [OF 1] demo_datastore_outcome(1) [OF 2] by simp
qed

text \<open>
  Claim C4.  A run of a training script that ends normally has written to
  \<open>outputs/diabetes_model.pkl\<close> the very object that \<open>fit\<close> returned: the file holds the
  pickle of that object, it is the object whose \<open>predict\<close> and \<open>predict_proba\<close> produced
  the logged accuracy and AUC, \<open>joblib.load\<close> of the file gives it back, and a service
  whose \<open>init\<close> loads that file has it as its model.
\<close>

theorem training_persists_fitted_model:
  "(tree_training L w = (Inr u, w') \<longrightarrow>
      (\<exists>X y X_train X_test y_train y_test fitted g y_hat y_scores auc.
          split_seeded L 0 (3 / 10) X y = Inr (X_train, X_test, y_train, y_test)
        \<and> fit_tree L (global_rng w) X_train y_train = (Inr fitted, g)
        \<and> files w' ''outputs/diabetes_model.pkl'' = Some (Pickled fitted)
        \<and> joblib_load_from (files w') ''outputs/diabetes_model.pkl'' = Inr fitted
        \<and> predict L fitted X_test = Inr y_hat
        \<and> predict_proba L fitted X_test = Inr y_scores
        \<and> roc_auc_score L y_test (map (\<lambda>r. r ! 1) y_scores) = Inr auc
        \<and> metrics w' = metrics w @ [(''Accuracy'', np_average (np_equal y_hat y_test)),
                                      (''AUC'', auc)]
        \<and> (\<forall>S s p. get_model_path S ''diabetes_model'' = Inr p
               \<and> joblib_load S p = joblib_load_from (files w') ''outputs/diabetes_model.pkl''
               \<longrightarrow> init S s = (Inr (), s\<lparr>model := Some fitted\<rparr>))))
   \<and> (datastore_training L argv w = (Inr u, w') \<longrightarrow>
      (\<exists>a C X y X_train X_test y_train y_test fitted g y_hat y_scores auc.
          parse_args L argv = Inr a
        \<and> one_div (reg_rate a) = Inr C
        \<and> split_seeded L 0 (3 / 10) X y = Inr (X_train, X_test, y_train, y_test)
        \<and> fit_logistic L (global_rng w) C ''liblinear'' X_train y_train = (Inr fitted, g)
        \<and> files w' ''outputs/diabetes_model.pkl'' = Some (Pickled fitted)
        \<and> joblib_load_from (files w') ''outputs/diabetes_model.pkl'' = Inr fitted
        \<and> predict L fitted X_test = Inr y_hat
        \<and> predict_proba L fitted X_test = Inr y_scores
        \<and> roc_auc_score L y_test (map (\<lambda>r. r ! 1) y_scores) = Inr auc
        \<and> metrics w' = metrics w @ [(''Regularization Rate'', reg_rate a),
                                      (''Accuracy'', np_average (np_equal y_hat y_test)),
                                      (''AUC'', auc)]
        \<and> (\<forall>S s p. get_model_path S ''diabetes_model'' = Inr p
               \<and> joblib_load S p = joblib_load_from (files w') ''outputs/diabetes_model.pkl''
               \<longrightarrow> init S s = (Inr (), s\<lparr>model := Some fitted\<rparr>))))"
proof (intro conjI impI)
  assume "tree_training L w = (Inr u, w')"
  then show "\<exists>X y X_train X_test y_train y_test fitted g y_hat y_scores auc.
          split_seeded L 0 (3 / 10) X y = Inr (X_train, X_test, y_train, y_test)
        \<and> fit_tree L (global_rng w) X_train y_train = (Inr fitted, g)
        \<and> files w' ''outputs/diabetes_model.pkl'' = Some (Pickled fitted)
        \<and> joblib_load_from (files w') ''outputs/diabetes_model.pkl'' = Inr fitted
        \<and> predict L fitted X_test = Inr y_hat
        \<and> predict_proba L fitted X_test = Inr y_scores
        \<and> roc_auc_score L y_test (map (\<lambda>r. r ! 1) y_scores) = Inr auc
        \<and> metrics w' = metrics w @ [(''Accuracy'', np_average (np_equal y_hat y_test)),
                                      (''AUC'', auc)]
        \<and> (\<forall>S s p. get_model_path S ''diabetes_model'' = Inr p
               \<and> joblib_load S p = joblib_load_from (files w') ''outputs/diabetes_model.pkl''
               \<longrightarrow> init S s = (Inr (), s\<lparr>model := Some fitted\<rparr>))"
    by (rule tree_returnsE)
      (fastforce dest!: column1_Inr simp add: joblib_load_from_def init_def)
next
  assume "datastore_training L argv w = (Inr u, w')"
  then show "\<exists>a C X y X_train X_test y_train y_test fitted g y_hat y_scores auc.
          parse_args L argv = Inr a
        \<and> one_div (reg_rate a) = Inr C
        \<and> split_seeded L 0 (3 / 10) X y = Inr (X_train, X_test, y_train, y_test)
        \<and> fit_logistic L (global_rng w) C ''liblinear'' X_train y_train = (Inr fitted, g)
        \<and> files w' ''outputs/diabetes_model.pkl'' = Some (Pickled fitted)
        \<and> joblib_load_from (files w') ''outputs/diabetes_model.pkl'' = Inr fitted
        \<and> predict L fitted X_test = Inr y_hat
        \<and> predict_proba L fitted X_test = Inr y_scores
        \<and> roc_auc_score L y_test (map (\<lambda>r. r ! 1) y_scores) = Inr auc
        \<and> metrics w' = metrics w @ [(''Regularization Rate'', reg_rate a),
                                      (''Accuracy'', np_average (np_equal y_hat y_test)),
                                      (''AUC'', auc)]
        \<and> (\<forall>S s p. get_model_path S ''diabetes_model'' = Inr p
               \<and> joblib_load S p = joblib_load_from (files w') ''outputs/diabetes_model.pkl''
               \<longrightarrow> init S s = (Inr (), s\<lparr>model := Some fitted\<rparr>))"
    by (rule datastore_returnsE)
      (fastforce dest!: column1_Inr simp add: joblib_load_from_def init_def)
qed

theorem training_persists_fitted_model_witness:
  "files (snd (tree_training demo_lib demo_world)) ''outputs/diabetes_model.pkl''
     = Some (Pickled 180)
   \<and> files (snd (datastore_training demo_lib demo_argv demo_world))
       ''outputs/diabetes_model.pkl'' = Some (Pickled 110)"
proof -
  obtain w1 where 1: "tree_training demo_lib demo_world = (Inr (), w1)"
    using demo_tree_returns by blast
  obtain w2 where 2: "datastore_training demo_lib demo_argv demo_world = (Inr (), w2)"
    using demo_datastore_returns by blast
  have "\<exists>fitted. files w1 ''outputs/diabetes_model.pkl'' = Some (Pickled fitted)"
    using training_persists_fitted_model [where L = demo_lib and w = demo_world and u = "()"
        and w' = w1] 1 by blast
  moreover have "\<exists>fitted. files w2 ''outputs/diabetes_model.pkl'' = Some (Pickled fitted)"
    using training_persists_fitted_model [where L = demo_lib and argv = demo_argv
        and w = demo_world and u = "()" and w' = w2] 2 by blast
  ultimately show ?thesis
    using 1 2 demo_tree_outcome(3) [OF 1] demo_datastore_outcome(3) [OF 2] by simp
qed

text \<open>
  Claim C6.  Plotting differs between the two scripts.  A run of the decision-tree script
  that ends normally has called \<open>roc_curve\<close> on the test labels and the second column of
  \<open>predict_proba\<close>, drawn the diagonal \<open>[0, 1]\<close>--\<open>[0, 1]\<close> in style \<open>k--\<close> and then the
  curve of \<open>fpr\<close> and \<open>tpr\<close> in one figure, and logged that figure to the run as the image
  \<open>ROC\<close>.  No run of the datastore script, however it ends, changes the figures or the
  images logged.
\<close>

theorem plotting_differs:
  "(tree_training L w = (Inr u, w') \<longrightarrow>
      (\<exists>X y X_train X_test y_train y_test fitted g y_scores fpr tpr thresholds.
          split_seeded L 0 (3 / 10) X y = Inr (X_train, X_test, y_train, y_test)
        \<and> fit_tree L (global_rng w) X_train y_train = (Inr fitted, g)
        \<and> predict_proba L fitted X_test = Inr y_scores
        \<and> roc_curve L y_test (map (\<lambda>r. r ! 1) y_scores) = Inr (fpr, tpr, thresholds)
        \<and> images w' = images w @ [(''ROC'', roc_figure fpr tpr)]
        \<and> fig_lines (roc_figure fpr tpr)
            = [([0, 1], [0, 1], Some ''k--''), (fpr, tpr, None)]))
   \<and> images (snd (datastore_training L argv w)) = images w
   \<and> figures (snd (datastore_training L argv w)) = figures w"
proof (intro conjI impI)
  assume "tree_training L w = (Inr u, w')"
  then show "\<exists>X y X_train X_test y_train y_test fitted g y_scores fpr tpr thresholds.
          split_seeded L 0 (3 / 10) X y = Inr (X_train, X_test, y_train, y_test)
        \<and> fit_tree L (global_rng w) X_train y_train = (Inr fitted, g)
        \<and> predict_proba L fitted X_test = Inr y_scores
        \<and> roc_curve L y_test (map (\<lambda>r. r ! 1) y_scores) = Inr (fpr, tpr, thresholds)
        \<and> images w' = images w @ [(''ROC'', roc_figure fpr tpr)]
        \<and> fig_lines (roc_figure fpr tpr)
            = [([0, 1], [0, 1], Some ''k--''), (fpr, tpr, None)]"
    by (rule tree_returnsE) (fastforce dest!: column1_Inr simp add: roc_figure_def)
next
  show "images (snd (datastore_training L argv w)) = images w"
    by (rule datastore_keeps_images)
next
  show "figures (snd (datastore_training L argv w)) = figures w"
    by (rule datastore_keeps_figures)
qed

theorem plotting_differs_witness:
  "images (snd (tree_training demo_lib demo_world)) = [(''ROC'', roc_figure [0, 0, 1] [0, 1, 1])]
   \<and> images (snd (datastore_training demo_lib demo_argv demo_world)) = []"
proof -
  obtain w1 where 1: "tree_training demo_lib demo_world = (Inr (), w1)"
    using demo_tree_returns by blast
  have "\<exists>fpr tpr. images w1 = images demo_world @ [(''ROC'', roc_figure fpr tpr)]"
    using plotting_differs [where L = demo_lib and w = demo_world and u = "()"
        and w' = w1] 1 by blast
  moreover have "images (snd (datastore_training demo_lib demo_argv demo_world))
      = images demo_world"
    using plotting_differs [where L = demo_lib and argv = demo_argv and w = demo_world]
    by blast
  ultimately show ?thesis
    using 1 demo_tree_outcome(2) [OF 1] by (simp add: demo_world_def)
qed

text \<open>
  Claim C7.  In the datastore script the option \<open>--regularization\<close> is parsed as a float
  \<open>reg\<close>, 0.01 when the option is absent.  For \<open>reg\<close> other than 0 the quotient \<open>1/reg\<close>
  is defined (for 0 Python raises \<open>ZeroDivisionError\<close>), and a run that ends normally
  has fitted the logistic regression with \<open>C = 1/reg\<close> and the solver \<open>liblinear\<close>, and
  has logged \<open>reg\<close> itself as the scalar \<open>Regularization Rate\<close>.
\<close>

theorem regularization_wiring:
  "parse_args L \<lparr> regularization = None, data_folder_opt = d \<rparr>
     = Inr \<lparr> reg_rate = Finite (1 / 100), data_folder = d \<rparr>
   \<and> (py_float L s = Some r \<longrightarrow>
        parse_args L \<lparr> regularization = Some s, data_folder_opt = d \<rparr>
          = Inr \<lparr> reg_rate = r, data_folder = d \<rparr>)
   \<and> (reg \<noteq> Finite 0 \<longrightarrow> (\<exists>C. one_div reg = Inr C))
   \<and> (q \<noteq> 0 \<longrightarrow> one_div (Finite q) = Inr (Finite (1 / q)))
   \<and> (datastore_training L argv w = (Inr u, w') \<longrightarrow>
        (\<exists>a C X_train y_train fitted g.
            parse_args L argv = Inr a
          \<and> reg_rate a \<noteq> Finite 0
          \<and> one_div (reg_rate a) = Inr C
          \<and> fit_logistic L (global_rng w) C ''liblinear'' X_train y_train = (Inr fitted, g)
          \<and> FitLogisticRegression C ''liblinear'' \<in> set (trace w')
          \<and> files w' ''outputs/diabetes_model.pkl'' = Some (Pickled fitted)
          \<and> (''Regularization Rate'', reg_rate a) \<in> set (metrics w')))"
proof (intro conjI impI)
  show "parse_args L \<lparr> regularization = None, data_folder_opt = d \<rparr>
     = Inr \<lparr> reg_rate = Finite (1 / 100), data_folder = d \<rparr>"
    by (simp add: parse_args_def)
next
  assume "py_float L s = Some r"
  then show "parse_args L \<lparr> regularization = Some s, data_folder_opt = d \<rparr>
          = Inr \<lparr> reg_rate = r, data_folder = d \<rparr>"
    by (simp add: parse_args_def)
next
  assume "reg \<noteq> Finite 0"
  then show "\<exists>C. one_div reg = Inr C"
    by (cases reg) simp_all
next
  assume "q \<noteq> 0"
  then show "one_div (Finite q) = Inr (Finite (1 / q))"
    by simp
next
  assume "datastore_training L argv w = (Inr u, w')"
  then show "\<exists>a C X_train y_train fitted g.
            parse_args L argv = Inr a
          \<and> reg_rate a \<noteq> Finite 0
          \<and> one_div (reg_rate a) = Inr C
          \<and> fit_logistic L (global_rng w) C ''liblinear'' X_train y_train = (Inr fitted, g)
          \<and> FitLogisticRegression C ''liblinear'' \<in> set (trace w')
          \<and> files w' ''outputs/diabetes_model.pkl'' = Some (Pickled fitted)
          \<and> (''Regularization Rate'', reg_rate a) \<in> set (metrics w')"
    by (rule datastore_returnsE) fastforce
qed

theorem regularization_wiring_witness:
  "parse_args demo_lib \<lparr> regularization = None, data_folder_opt = Some ''data'' \<rparr>
     = Inr \<lparr> reg_rate = Finite (1 / 100), data_folder = Some ''data'' \<rparr>
   \<and> parse_args demo_lib demo_argv = Inr \<lparr> reg_rate = Finite (1 / 2), data_folder = Some ''data'' \<rparr>
   \<and> one_div (Finite (1 / 2)) = Inr (Finite 2)
   \<and> trace (snd (datastore_training demo_lib demo_argv demo_world)) = datastore_steps (Finite 2)
   \<and> (''Regularization Rate'', Finite (1 / 2))
       \<in> set (metrics (snd (datastore_training demo_lib demo_argv demo_world)))"
proof -
  obtain w2 where 2: "datastore_training demo_lib demo_argv demo_world = (Inr (), w2)"
    using demo_datastore_returns by blast
  have a: "parse_args demo_lib \<lparr> regularization = None, data_folder_opt = Some ''data'' \<rparr>
     = Inr \<lparr> reg_rate = Finite (1 / 100), data_folder = Some ''data'' \<rparr>"
    using regularization_wiring [where L = demo_lib and d = "Some ''data''"] by blast
  have b: "parse_args demo_lib demo_argv
      = Inr \<lparr> reg_rate = Finite (1 / 2), data_folder = Some ''data'' \<rparr>"
    using regularization_wiring [where L = demo_lib and d = "Some ''data''" and s = "''0.5''"
        and r = "Finite (1 / 2)"]
    by (simp add: demo_lib_def demo_argv_def)
  have "\<exists>C. one_div (Finite (1 / 2)) = Inr C"
    using regularization_wiring [where reg = "Finite (1 / 2)"] by simp
  moreover have "one_div (Finite (1 / 2)) = Inr (Finite (1 / (1 / 2)))"
    using regularization_wiring [where q = "1 / 2"] by simp
  ultimately have c: "one_div (Finite (1 / 2)) = Inr (Finite 2)"
    by simp
  have "\<exists>a. parse_args demo_lib demo_argv = Inr a
      \<and> (''Regularization Rate'', reg_rate a) \<in> set (metrics w2)"
    using regularization_wiring [where L = demo_lib and argv = demo_argv and w = demo_world
        and u = "()" and w' = w2] 2 by blast
  with b have d: "(''Regularization Rate'', Finite (1 / 2)) \<in> set (metrics w2)"
    by auto
  from a b c d 2 demo_datastore_outcome(4) [OF 2] show ?thesis
    by simp
qed

lemma same_but_rng_iff:
  "same_but_rng w1 w2 \<longleftrightarrow>
     trace w1 = trace w2 \<and> stdout w1 = stdout w2 \<and> metrics w1 = metrics w2
     \<and> images w1 = images w2 \<and> figures w1 = figures w2 \<and> dirs w1 = dirs w2
     \<and> files w1 = files w2 \<and> completed w1 = completed w2"
  by (cases w1; cases w2) (auto simp add: same_but_rng_def)

lemma rng_blind_seq:
  fixes p :: "('a, 'm) prog"
  assumes "rng_blind p" and "\<And>x. rng_blind (f x)"
  shows "rng_blind (seq p f)"
  unfolding rng_blind_def
proof (intro allI impI)
  fix w1 w2 :: "'m world"
  assume s: "same_but_rng w1 w2"
  obtain r1 v1 where p1: "p w1 = (r1, v1)" by (cases "p w1")
  obtain r2 v2 where p2: "p w2 = (r2, v2)" by (cases "p w2")
  from assms(1) s have "fst (p w1) = fst (p w2) \<and> same_but_rng (snd (p w1)) (snd (p w2))"
    unfolding rng_blind_def by blast
  with p1 p2 have r: "r2 = r1" and v: "same_but_rng v1 v2"
    by simp_all
  show "fst (seq p f w1) = fst (seq p f w2)
      \<and> same_but_rng (snd (seq p f w1)) (snd (seq p f w2))"
  proof (cases r1)
    case (Inl e)
    with p1 p2 r v show ?thesis by (simp add: seq_def)
  next
    case (Inr x)
    with assms(2) [of x] v have "fst (f x v1) = fst (f x v2)
        \<and> same_but_rng (snd (f x v1)) (snd (f x v2))"
      by (simp add: rng_blind_def)
    with Inr p1 p2 r show ?thesis by (simp add: seq_def)
  qed
qed

lemma rng_blind_case_prod:
  assumes "\<And>a b. rng_blind (f a b)"
  shows "rng_blind (case_prod f x)"
  using assms by (cases x) simp

lemma rng_blind_steps:
  "rng_blind (call st r)"
  "rng_blind (pure r)"
  "rng_blind (print l)"
  "rng_blind (run_log n v)"
  "rng_blind run_complete"
  "rng_blind (train_test_split L X y t (Some sd))"
  "rng_blind (plt_figure sz)"
  "rng_blind (on_current st g)"
  "rng_blind (run_log_image n k)"
  "rng_blind (makedirs d)"
  "rng_blind (joblib_dump m fn)"
  by (auto simp add: rng_blind_def same_but_rng_iff step_defs plt_figure_def on_current_def
      run_log_image_def Let_def)

lemma rng_blind_plots:
  "rng_blind (plt_plot xs ys fmt)"
  "rng_blind (plt_xlabel s)"
  "rng_blind (plt_ylabel s)"
  "rng_blind (plt_title s)"
  by (simp_all add: plt_plot_def plt_xlabel_def plt_ylabel_def plt_title_def rng_blind_steps)

lemma rng_blind_fit_tree:
  fixes L :: "'a training_lib"
  assumes "\<forall>g g' X y. fst (fit_tree L g X y) = fst (fit_tree L g' X y)"
  shows "rng_blind (fit_decision_tree L X y)"
  unfolding rng_blind_def
proof (intro allI impI)
  fix w1 w2 :: "'a world"
  assume "same_but_rng w1 w2"
  moreover from assms have "fst (fit_tree L (global_rng w1) X y) = fst (fit_tree L (global_rng w2) X y)"
    by blast
  ultimately show "fst (fit_decision_tree L X y w1) = fst (fit_decision_tree L X y w2)
      \<and> same_but_rng (snd (fit_decision_tree L X y w1)) (snd (fit_decision_tree L X y w2))"
    by (auto simp add: same_but_rng_iff fit_decision_tree_def split: prod.splits)
qed

lemma rng_blind_fit_logistic:
  fixes L :: "'a training_lib"
  assumes "\<forall>g g' C sv X y. fst (fit_logistic L g C sv X y) = fst (fit_logistic L g' C sv X y)"
  shows "rng_blind (fit_logistic_regression L C sv X y)"
  unfolding rng_blind_def
proof (intro allI impI)
  fix w1 w2 :: "'a world"
  assume "same_but_rng w1 w2"
  moreover from assms have "fst (fit_logistic L (global_rng w1) C sv X y)
      = fst (fit_logistic L (global_rng w2) C sv X y)"
    by blast
  ultimately show "fst (fit_logistic_regression L C sv X y w1)
        = fst (fit_logistic_regression L C sv X y w2)
      \<and> same_but_rng (snd (fit_logistic_regression L C sv X y w1))
          (snd (fit_logistic_regression L C sv X y w2))"
    by (auto simp add: same_but_rng_iff fit_logistic_regression_def split: prod.splits)
qed

lemma rng_blind_tree:
  assumes "\<forall>g g' X y. fst (fit_tree L g X y) = fst (fit_tree L g' X y)"
  shows "rng_blind (tree_training L)"
  unfolding tree_training_def tree_split_fit_score_def
  by (intro rng_blind_seq rng_blind_case_prod rng_blind_steps rng_blind_plots
      rng_blind_fit_tree assms)

lemma rng_blind_datastore:
  assumes "\<forall>g g' C sv X y. fst (fit_logistic L g C sv X y) = fst (fit_logistic L g' C sv X y)"
  shows "rng_blind (datastore_training L argv)"
  unfolding datastore_training_def datastore_split_fit_score_def
  by (intro rng_blind_seq rng_blind_case_prod rng_blind_steps rng_blind_fit_logistic assms)

lemma features_and_labels_Inr:
  assumes "features_and_labels df = Inr (X, y)"
  shows "set feature_columns \<subseteq> set (df_columns df)"
    and "''Diabetic'' \<in> set (df_columns df)"
    and "X = map (\<lambda>r. map (\<lambda>c. r ! column_index c (df_columns df)) feature_columns) (df_rows df)"
    and "y = map (\<lambda>r. r ! column_index ''Diabetic'' (df_columns df)) (df_rows df)"
proof -
  from assms have f: "filter (\<lambda>c. c \<notin> set (df_columns df)) feature_columns = []"
    by (auto simp add: features_and_labels_def select_columns_def split: list.splits)
  then show "set feature_columns \<subseteq> set (df_columns df)"
    by (auto simp add: filter_empty_conv)
  from assms f show "''Diabetic'' \<in> set (df_columns df)"
    by (auto simp add: features_and_labels_def select_columns_def select_column_def
        split: if_splits)
  from assms f
  show "X = map (\<lambda>r. map (\<lambda>c. r ! column_index c (df_columns df)) feature_columns) (df_rows df)"
    by (auto simp add: features_and_labels_def select_columns_def select_column_def
        split: if_splits)
  from assms f show "y = map (\<lambda>r. r ! column_index ''Diabetic'' (df_columns df)) (df_rows df)"
    by (auto simp add: features_and_labels_def select_columns_def select_column_def
        split: if_splits)
qed

lemma features_and_labels_missing:
  assumes "c \<in> set feature_columns \<union> {''Diabetic''}" and "c \<notin> set (df_columns df)"
  shows "\<exists>c'. features_and_labels df = Inl (KeyError c') \<and> c' \<notin> set (df_columns df)"
proof (cases "filter (\<lambda>c. c \<notin> set (df_columns df)) feature_columns")
  case Nil
  then have "\<forall>c \<in> set feature_columns. c \<in> set (df_columns df)"
    by (simp add: filter_empty_conv)
  with assms have "''Diabetic'' \<notin> set (df_columns df)"
    by auto
  with Nil show ?thesis
    by (simp add: features_and_labels_def select_columns_def select_column_def)
next
  case (Cons c' cs)
  then have "c' \<in> set (filter (\<lambda>c. c \<notin> set (df_columns df)) feature_columns)"
    by simp
  then have "c' \<notin> set (df_columns df)"
    by simp
  with Cons show ?thesis
    by (simp add: features_and_labels_def select_columns_def)
qed

lemma read_all_Inr:
  "read_all L folder fs = Inr dfs \<Longrightarrow>
     length dfs = length fs
     \<and> (\<forall>i < length fs. \<exists>p. path_join folder (fs ! i) = Inr p \<and> read_csv L p = Inr (dfs ! i))"
proof (induction fs arbitrary: dfs)
  case Nil
  then show ?case by simp
next
  case (Cons f fs)
  from Cons.prems obtain p df rest where p: "path_join folder f = Inr p"
    and r: "read_csv L p = Inr df" and t: "read_all L folder fs = Inr rest"
    and d: "dfs = df # rest"
    by (auto split: sum.splits)
  from Cons.IH [OF t] have len: "length rest = length fs"
    and each: "\<forall>i < length fs. \<exists>p. path_join folder (fs ! i) = Inr p
        \<and> read_csv L p = Inr (rest ! i)"
    by simp_all
  show ?case
  proof (intro conjI allI impI)
    show "length dfs = length (f # fs)"
      using d len by simp
  next
    fix i
    assume "i < length (f # fs)"
    then show "\<exists>p. path_join folder ((f # fs) ! i) = Inr p \<and> read_csv L p = Inr (dfs ! i)"
      using p r d each by (cases i) auto
  qed
qed

lemma read_all_fails:
  "f \<in> set fs \<Longrightarrow> path_join folder f = Inr p \<Longrightarrow> read_csv L p = Inl e \<Longrightarrow>
     \<exists>e'. read_all L folder fs = Inl e'"
proof (induction fs)
  case Nil
  then show ?case by simp
next
  case (Cons g fs)
  show ?case
  proof (cases "f = g")
    case True
    with Cons.prems show ?thesis by simp
  next
    case False
    with Cons.prems have "f \<in> set fs"
      by simp
    from Cons.IH [OF this Cons.prems(2) Cons.prems(3)] obtain e' where
      "read_all L folder fs = Inl e'"
      by blast
    then show ?thesis
      by (simp split: sum.splits)
  qed
qed

lemma load_folder_Inr:
  "load_folder L folder fs = Inr df \<Longrightarrow>
     \<exists>dfs. read_all L folder fs = Inr dfs \<and> pd_concat L dfs = Inr df"
  by (auto simp add: load_folder_def split: sum.splits)

lemma datastore_load_fails:
  assumes "parse_args L argv = Inr a"
    and "listdir L (case data_folder a of None \<Rightarrow> ''.'' | Some d \<Rightarrow> d) = Inr all_files"
    and "load_folder L (data_folder a) all_files = Inl e"
  shows "fst (datastore_training L argv w) = Inl e"
    and "trace (snd (datastore_training L argv w))
      = trace w @ [ParseArgs, GetContext, ListDir, ReadConcat]"
  using assms by (simp_all add: datastore_training_def seq_def call_def print_def)

lemma datastore_select_fails:
  assumes "parse_args L argv = Inr a"
    and "listdir L (case data_folder a of None \<Rightarrow> ''.'' | Some d \<Rightarrow> d) = Inr all_files"
    and "load_folder L (data_folder a) all_files = Inr diabetes"
    and "features_and_labels diabetes = Inl e"
  shows "fst (datastore_training L argv w) = Inl e"
    and "trace (snd (datastore_training L argv w))
      = trace w @ [ParseArgs, GetContext, ListDir, ReadConcat, SelectColumns]"
  using assms by (simp_all add: datastore_training_def seq_def call_def print_def)

lemma tree_select_fails:
  assumes "input_datasets L ''diabetes'' = Some (Inr diabetes)"
    and "features_and_labels diabetes = Inl e"
  shows "fst (tree_training L w) = Inl e"
    and "trace (snd (tree_training L w)) = trace w @ [GetContext, ReadDataset, SelectColumns]"
  using assms
  by (simp_all add: tree_training_def seq_def call_def print_def input_dataframe_def)

lemma ceiling_three_tenths:
  fixes n :: nat
  defines "k \<equiv> nat \<lceil>(3 / 10 :: rat) * of_nat n\<rceil>"
  shows "3 * n \<le> 10 * k" and "10 * k < 3 * n + 10"
proof -
  let ?x = "(3 / 10 :: rat) * of_nat n"
  let ?c = "\<lceil>?x\<rceil>"
  have x0: "0 \<le> ?x"
    by simp
  then have c0: "0 \<le> ?c"
    by (simp add: ceiling_le_iff [symmetric] less_imp_le)
  have c: "of_int ?c - 1 < ?x \<and> ?x \<le> of_int ?c"
    by (rule ceiling_correct)
  have e1: "(of_int (3 * int n) :: rat) = 10 * ?x"
    by simp
  have e2: "(of_int (10 * ?c) :: rat) = 10 * of_int ?c"
    by simp
  have e3: "(of_int (3 * int n + 10) :: rat) = 10 * ?x + 10"
    by simp
  from c have "10 * ?x \<le> 10 * of_int ?c"
    by linarith
  then have "(of_int (3 * int n) :: rat) \<le> of_int (10 * ?c)"
    by (simp only: e1 e2)
  then have 1: "3 * int n \<le> 10 * ?c"
    by (simp only: of_int_le_iff)
  from c have "10 * of_int ?c < 10 * ?x + 10"
    by linarith
  then have "(of_int (10 * ?c) :: rat) < of_int (3 * int n + 10)"
    by (simp only: e2 e3)
  then have 2: "10 * ?c < 3 * int n + 10"
    by (simp only: of_int_less_iff)
  from c0 have "int k = ?c"
    by (simp add: k_def)
  with 1 2 show "3 * n \<le> 10 * k" and "10 * k < 3 * n + 10"
    by linarith+
qed

lemma split_by_sizes:
  assumes "split_by p t X y = Inr (X_train, X_test, y_train, y_test)"
    and "length p = length X"
  shows "length y = length X"
    and "length X_test = nat \<lceil>t * of_nat (length X)\<rceil>"
    and "length y_test = length X_test"
    and "length X_train = length X - length X_test"
    and "length y_train = length X_train"
    and "X_train \<noteq> []"
  using assms
  by (auto simp add: split_by_def Let_def min_def split: if_splits)

lemma zip_map_same: "zip (map f xs) (map g xs) = map (\<lambda>i. (f i, g i)) xs"
  by (induction xs) auto

lemma split_by_partition:
  assumes "split_by p t X y = Inr (X_train, X_test, y_train, y_test)"
    and "mset p = mset [0..<length X]"
  shows "mset (zip X_train y_train) + mset (zip X_test y_test) = mset (zip X y)"
proof -
  let ?n = "length X"
  let ?k = "nat \<lceil>t * of_nat ?n\<rceil>"
  let ?f = "\<lambda>i. (X ! i, y ! i)"
  from assms(2) have lp: "length p = ?n"
    by (metis length_upt mset_eq_length minus_nat.diff_0)
  from assms(1) have ly: "length y = ?n" and k: "?n - ?k \<noteq> 0"
    by (auto simp add: split_by_def Let_def split: if_splits)
  from assms(1) have tr: "X_train = map (\<lambda>i. X ! i) (take (?n - ?k) (drop ?k p))"
    and ytr: "y_train = map (\<lambda>i. y ! i) (take (?n - ?k) (drop ?k p))"
    and te: "X_test = map (\<lambda>i. X ! i) (take ?k p)"
    and yte: "y_test = map (\<lambda>i. y ! i) (take ?k p)"
    by (auto simp add: split_by_def Let_def split: if_splits)
  from lp have whole: "take (?n - ?k) (drop ?k p) = drop ?k p"
    by simp
  have "mset (zip X_train y_train) + mset (zip X_test y_test)
      = mset (map ?f (drop ?k p)) + mset (map ?f (take ?k p))"
    by (simp add: tr ytr te yte whole zip_map_same)
  also have "\<dots> = mset (map ?f (take ?k p @ drop ?k p))"
    by (simp only: map_append mset_append add.commute)
  also have "\<dots> = image_mset ?f (mset p)"
    by (simp only: append_take_drop_id mset_map)
  also have "\<dots> = mset (map ?f [0..<?n])"
    by (simp add: assms(2))
  finally have m: "mset (zip X_train y_train) + mset (zip X_test y_test)
      = mset (map ?f [0..<?n])" .
  have "map ?f [0..<?n] = zip X y"
  proof (rule nth_equalityI)
    show "length (map ?f [0..<?n]) = length (zip X y)"
      using ly by simp
  next
    fix i
    assume "i < length (map ?f [0..<?n])"
    then show "map ?f [0..<?n] ! i = zip X y ! i"
      using ly by simp
  qed
  with m show ?thesis
    by simp
qed

lemma split_by_succeeds:
  assumes "length y = length X" and "2 \<le> length X"
  shows "\<exists>sp. split_by p (3 / 10) X y = Inr sp"
proof -
  have "10 * nat \<lceil>(3 / 10 :: rat) * of_nat (length X)\<rceil> < 3 * length X + 10"
    by (rule ceiling_three_tenths)
  with assms(2) have "length X - nat \<lceil>(3 / 10 :: rat) * of_nat (length X)\<rceil> \<noteq> 0"
    by linarith
  with assms(1) show ?thesis
    by (simp add: split_by_def Let_def)
qed

lemma rng_blind_tree_part:
  assumes "\<forall>g g' X y. fst (fit_tree L g X y) = fst (fit_tree L g' X y)"
  shows "rng_blind (tree_split_fit_score L X y)"
  unfolding tree_split_fit_score_def
  by (intro rng_blind_seq rng_blind_case_prod rng_blind_steps rng_blind_plots
      rng_blind_fit_tree assms)

lemma rng_blind_datastore_part:
  assumes "\<forall>g g' C sv X y. fst (fit_logistic L g C sv X y) = fst (fit_logistic L g' C sv X y)"
  shows "rng_blind (datastore_split_fit_score L a X y)"
  unfolding datastore_split_fit_score_def
  by (intro rng_blind_seq rng_blind_case_prod rng_blind_steps rng_blind_fit_logistic assms)

lemma rng_blindD:
  assumes "rng_blind p" and "same_but_rng w1 w2"
  shows "fst (p w1) = fst (p w2)"
    and "metrics (snd (p w1)) = metrics (snd (p w2))"
    and "same_but_rng (snd (p w1)) (snd (p w2))"
proof -
  from assms have r: "fst (p w1) = fst (p w2) \<and> same_but_rng (snd (p w1)) (snd (p w2))"
    unfolding rng_blind_def by blast
  then show "fst (p w1) = fst (p w2)" and "same_but_rng (snd (p w1)) (snd (p w2))"
    by simp_all
  from r show "metrics (snd (p w1)) = metrics (snd (p w2))"
    by (simp add: same_but_rng_iff)
qed

lemma demo_lib_ba_fields:
  "listdir demo_lib_ba = (\<lambda>d. Inr [''b.csv'', ''a.csv''])"
  "py_float demo_lib_ba = py_float demo_lib"
  "str_float demo_lib_ba = str_float demo_lib"
  "read_csv demo_lib_ba = read_csv demo_lib"
  "pd_concat demo_lib_ba = pd_concat demo_lib"
  "input_datasets demo_lib_ba = input_datasets demo_lib"
  "fit_logistic demo_lib_ba = fit_logistic demo_lib"
  "fit_tree demo_lib_ba = fit_tree demo_lib"
  "predict demo_lib_ba = predict demo_lib"
  "predict_proba demo_lib_ba = predict_proba demo_lib"
  "roc_auc_score demo_lib_ba = roc_auc_score demo_lib"
  "roc_curve demo_lib_ba = roc_curve demo_lib"
  by (simp_all add: demo_lib_ba_def)

lemma demo_ba_split_four:
  "split_seeded demo_lib_ba 0 (3 / 10) [a, b, c, d] [k, l, m, n]
     = Inr ([c, d], [a, b], [m, n], [k, l])"
  by (rule split_four) (simp add: demo_lib_ba_def demo_lib_def eval_nat_numeral)

lemma demo_ba_returns:
  "\<exists>w'. datastore_training demo_lib_ba demo_argv demo_world = (Inr (), w')"
  by (simp add: datastore_training_Inr demo_lib_ba_fields demo_ba_split_four demo_defs
      table_defs)

lemma demo_ba_outcome:
  assumes "datastore_training demo_lib_ba demo_argv demo_world = (Inr (), w')"
  shows "metrics w' = [(''Regularization Rate'', Finite (1 / 2)), (''Accuracy'', Finite (1 / 2)),
           (''AUC'', Finite (3 / 4))]"
  using assms
  by (auto elim!: datastore_returnsE
      simp add: demo_lib_ba_fields demo_ba_split_four demo_defs table_defs np_average_def
        np_equal_def)

text \<open>
  Claim C9, as the code has it.  Both scripts call \<open>train_test_split\<close> with
  \<open>test_size=0.30\<close> and \<open>random_state=0\<close>.  The split of a feature matrix of \<open>n\<close> rows and
  its labels is then a function of these alone: it does not read the global generator.
  It puts 30\% of the rows, rounded up, in the test set (\<open>k\<close> rows with
  \<open>3 n \<le> 10 k < 3 n + 10\<close>) and every other row in the training set, each row with its
  label, and it exists whenever there are at least two rows.  Two runs of the rest of a
  script on the same matrix and labels, from worlds that differ only in the state of the
  global generator and with a \<open>fit\<close> that does not depend on that state, end the same
  way, log the same accuracy and AUC and leave worlds that differ only in that state; so do
  two such runs of a whole script that load their data through the same library calls.
\<close>

theorem seeded_split_deterministic:
  "(split_seeded L 0 (3 / 10) X y = Inr (X_train, X_test, y_train, y_test)
      \<and> mset (permutation_seeded L 0 (length X)) = mset [0..<length X] \<longrightarrow>
        3 * length X \<le> 10 * length X_test \<and> 10 * length X_test < 3 * length X + 10
      \<and> length y_test = length X_test
      \<and> length X_train = length X - length X_test
      \<and> length y_train = length X_train
      \<and> mset (zip X_train y_train) + mset (zip X_test y_test) = mset (zip X y))
   \<and> (length y = length X \<and> 2 \<le> length X \<longrightarrow> (\<exists>sp. split_seeded L 0 (3 / 10) X y = Inr sp))
   \<and> fst (train_test_split L X y (3 / 10) (Some 0) w) = split_seeded L 0 (3 / 10) X y
   \<and> (tree_training L w = (Inr u, w') \<longrightarrow>
        TrainTestSplit (3 / 10) (Some 0) \<in> set (trace w')
      \<and> (\<exists>diabetes X y X_train X_test y_train y_test fitted g.
            input_datasets L ''diabetes'' = Some (Inr diabetes)
          \<and> features_and_labels diabetes = Inr (X, y)
          \<and> split_seeded L 0 (3 / 10) X y = Inr (X_train, X_test, y_train, y_test)
          \<and> fit_tree L (global_rng w) X_train y_train = (Inr fitted, g)))
   \<and> (datastore_training L argv w = (Inr u, w') \<longrightarrow>
        TrainTestSplit (3 / 10) (Some 0) \<in> set (trace w')
      \<and> (\<exists>a all_files diabetes X y X_train X_test y_train y_test C fitted g.
            parse_args L argv = Inr a
          \<and> load_folder L (data_folder a) all_files = Inr diabetes
          \<and> features_and_labels diabetes = Inr (X, y)
          \<and> split_seeded L 0 (3 / 10) X y = Inr (X_train, X_test, y_train, y_test)
          \<and> fit_logistic L (global_rng w) C ''liblinear'' X_train y_train = (Inr fitted, g)))
   \<and> (same_but_rng w1 w2 \<and> (\<forall>g g' X y. fst (fit_tree L g X y) = fst (fit_tree L g' X y)) \<longrightarrow>
        fst (tree_split_fit_score L X y w1) = fst (tree_split_fit_score L X y w2)
      \<and> metrics (snd (tree_split_fit_score L X y w1))
          = metrics (snd (tree_split_fit_score L X y w2))
      \<and> same_but_rng (snd (tree_split_fit_score L X y w1))
          (snd (tree_split_fit_score L X y w2))
      \<and> fst (tree_training L w1) = fst (tree_training L w2)
      \<and> metrics (snd (tree_training L w1)) = metrics (snd (tree_training L w2))
      \<and> same_but_rng (snd (tree_training L w1)) (snd (tree_training L w2)))
   \<and> (same_but_rng w1 w2
        \<and> (\<forall>g g' C sv X y. fst (fit_logistic L g C sv X y) = fst (fit_logistic L g' C sv X y)) \<longrightarrow>
        fst (datastore_split_fit_score L a X y w1) = fst (datastore_split_fit_score L a X y w2)
      \<and> metrics (snd (datastore_split_fit_score L a X y w1))
          = metrics (snd (datastore_split_fit_score L a X y w2))
      \<and> same_but_rng (snd (datastore_split_fit_score L a X y w1))
          (snd (datastore_split_fit_score L a X y w2))
      \<and> fst (datastore_training L argv w1) = fst (datastore_training L argv w2)
      \<and> metrics (snd (datastore_training L argv w1))
          = metrics (snd (datastore_training L argv w2))
      \<and> same_but_rng (snd (datastore_training L argv w1))
          (snd (datastore_training L argv w2)))"
proof -
  have 1: "split_seeded L 0 (3 / 10) X y = Inr (X_train, X_test, y_train, y_test)
      \<and> mset (permutation_seeded L 0 (length X)) = mset [0..<length X] \<longrightarrow>
        3 * length X \<le> 10 * length X_test \<and> 10 * length X_test < 3 * length X + 10
      \<and> length y_test = length X_test
      \<and> length X_train = length X - length X_test
      \<and> length y_train = length X_train
      \<and> mset (zip X_train y_train) + mset (zip X_test y_test) = mset (zip X y)"
  proof
    assume h: "split_seeded L 0 (3 / 10) X y = Inr (X_train, X_test, y_train, y_test)
      \<and> mset (permutation_seeded L 0 (length X)) = mset [0..<length X]"
    let ?p = "permutation_seeded L 0 (length X)"
    from h have s: "split_by ?p (3 / 10) X y = Inr (X_train, X_test, y_train, y_test)"
      by (simp add: split_seeded_def)
    from h have m: "mset ?p = mset [0..<length X]"
      by simp
    then have l: "length ?p = length X"
      by (metis length_upt mset_eq_length minus_nat.diff_0)
    have k: "length X_test = nat \<lceil>(3 / 10 :: rat) * of_nat (length X)\<rceil>"
      by (rule split_by_sizes(2) [OF s l])
    have "3 * length X \<le> 10 * length X_test" and "10 * length X_test < 3 * length X + 10"
      unfolding k by (rule ceiling_three_tenths)+
    with split_by_sizes(3,4,5) [OF s l] split_by_partition [OF s m]
    show "3 * length X \<le> 10 * length X_test \<and> 10 * length X_test < 3 * length X + 10
      \<and> length y_test = length X_test
      \<and> length X_train = length X - length X_test
      \<and> length y_train = length X_train
      \<and> mset (zip X_train y_train) + mset (zip X_test y_test) = mset (zip X y)"
      by simp
  qed
  have 2: "length y = length X \<and> 2 \<le> length X \<longrightarrow>
      (\<exists>sp. split_seeded L 0 (3 / 10) X y = Inr sp)"
    using split_by_succeeds [of y X] by (simp add: split_seeded_def)
  have 3: "fst (train_test_split L X y (3 / 10) (Some 0) w) = split_seeded L 0 (3 / 10) X y"
    by (simp add: train_test_split_def)
  have 4: "tree_training L w = (Inr u, w') \<longrightarrow>
        TrainTestSplit (3 / 10) (Some 0) \<in> set (trace w')
      \<and> (\<exists>diabetes X y X_train X_test y_train y_test fitted g.
            input_datasets L ''diabetes'' = Some (Inr diabetes)
          \<and> features_and_labels diabetes = Inr (X, y)
          \<and> split_seeded L 0 (3 / 10) X y = Inr (X_train, X_test, y_train, y_test)
          \<and> fit_tree L (global_rng w) X_train y_train = (Inr fitted, g))"
  proof
    assume r: "tree_training L w = (Inr u, w')"
    then have "trace w' = trace w @ tree_steps"
      by (rule tree_trace)
    then have "TrainTestSplit (3 / 10) (Some 0) \<in> set (trace w')"
      by (simp add: tree_steps_def)
    moreover from r have "\<exists>diabetes X y X_train X_test y_train y_test fitted g.
            input_datasets L ''diabetes'' = Some (Inr diabetes)
          \<and> features_and_labels diabetes = Inr (X, y)
          \<and> split_seeded L 0 (3 / 10) X y = Inr (X_train, X_test, y_train, y_test)
          \<and> fit_tree L (global_rng w) X_train y_train = (Inr fitted, g)"
      by (rule tree_returnsE) blast
    ultimately show "TrainTestSplit (3 / 10) (Some 0) \<in> set (trace w')
      \<and> (\<exists>diabetes X y X_train X_test y_train y_test fitted g.
            input_datasets L ''diabetes'' = Some (Inr diabetes)
          \<and> features_and_labels diabetes = Inr (X, y)
          \<and> split_seeded L 0 (3 / 10) X y = Inr (X_train, X_test, y_train, y_test)
          \<and> fit_tree L (global_rng w) X_train y_train = (Inr fitted, g))"
      by simp
  qed
  have 5: "datastore_training L argv w = (Inr u, w') \<longrightarrow>
        TrainTestSplit (3 / 10) (Some 0) \<in> set (trace w')
      \<and> (\<exists>a all_files diabetes X y X_train X_test y_train y_test C fitted g.
            parse_args L argv = Inr a
          \<and> load_folder L (data_folder a) all_files = Inr diabetes
          \<and> features_and_labels diabetes = Inr (X, y)
          \<and> split_seeded L 0 (3 / 10) X y = Inr (X_train, X_test, y_train, y_test)
          \<and> fit_logistic L (global_rng w) C ''liblinear'' X_train y_train = (Inr fitted, g))"
  proof
    assume r: "datastore_training L argv w = (Inr u, w')"
    then obtain C where "trace w' = trace w @ datastore_steps C"
      using datastore_trace by blast
    then have "TrainTestSplit (3 / 10) (Some 0) \<in> set (trace w')"
      by (simp add: datastore_steps_def)
    moreover from r have "\<exists>a all_files diabetes X y X_train X_test y_train y_test C fitted g.
            parse_args L argv = Inr a
          \<and> load_folder L (data_folder a) all_files = Inr diabetes
          \<and> features_and_labels diabetes = Inr (X, y)
          \<and> split_seeded L 0 (3 / 10) X y = Inr (X_train, X_test, y_train, y_test)
          \<and> fit_logistic L (global_rng w) C ''liblinear'' X_train y_train = (Inr fitted, g)"
      by (rule datastore_returnsE) blast
    ultimately show "TrainTestSplit (3 / 10) (Some 0) \<in> set (trace w')
      \<and> (\<exists>a all_files diabetes X y X_train X_test y_train y_test C fitted g.
            parse_args L argv = Inr a
          \<and> load_folder L (data_folder a) all_files = Inr diabetes
          \<and> features_and_labels diabetes = Inr (X, y)
          \<and> split_seeded L 0 (3 / 10) X y = Inr (X_train, X_test, y_train, y_test)
          \<and> fit_logistic L (global_rng w) C ''liblinear'' X_train y_train = (Inr fitted, g))"
      by simp
  qed
  have 6: "same_but_rng w1 w2 \<and> (\<forall>g g' X y. fst (fit_tree L g X y) = fst (fit_tree L g' X y)) \<longrightarrow>
        fst (tree_split_fit_score L X y w1) = fst (tree_split_fit_score L X y w2)
      \<and> metrics (snd (tree_split_fit_score L X y w1))
          = metrics (snd (tree_split_fit_score L X y w2))
      \<and> same_but_rng (snd (tree_split_fit_score L X y w1))
          (snd (tree_split_fit_score L X y w2))
      \<and> fst (tree_training L w1) = fst (tree_training L w2)
      \<and> metrics (snd (tree_training L w1)) = metrics (snd (tree_training L w2))
      \<and> same_but_rng (snd (tree_training L w1)) (snd (tree_training L w2))"
  proof
    assume h: "same_but_rng w1 w2
      \<and> (\<forall>g g' X y. fst (fit_tree L g X y) = fst (fit_tree L g' X y))"
    then have s: "same_but_rng w1 w2"
      and d: "\<forall>g g' X y. fst (fit_tree L g X y) = fst (fit_tree L g' X y)"
      by blast+
    from rng_blindD [OF rng_blind_tree_part [OF d] s, of X y]
      rng_blindD [OF rng_blind_tree [OF d] s]
    show "fst (tree_split_fit_score L X y w1) = fst (tree_split_fit_score L X y w2)
      \<and> metrics (snd (tree_split_fit_score L X y w1))
          = metrics (snd (tree_split_fit_score L X y w2))
      \<and> same_but_rng (snd (tree_split_fit_score L X y w1))
          (snd (tree_split_fit_score L X y w2))
      \<and> fst (tree_training L w1) = fst (tree_training L w2)
      \<and> metrics (snd (tree_training L w1)) = metrics (snd (tree_training L w2))
      \<and> same_but_rng (snd (tree_training L w1)) (snd (tree_training L w2))"
      by simp
  qed
  have 7: "same_but_rng w1 w2
        \<and> (\<forall>g g' C sv X y. fst (fit_logistic L g C sv X y) = fst (fit_logistic L g' C sv X y)) \<longrightarrow>
        fst (datastore_split_fit_score L a X y w1) = fst (datastore_split_fit_score L a X y w2)
      \<and> metrics (snd (datastore_split_fit_score L a X y w1))
          = metrics (snd (datastore_split_fit_score L a X y w2))
      \<and> same_but_rng (snd (datastore_split_fit_score L a X y w1))
          (snd (datastore_split_fit_score L a X y w2))
      \<and> fst (datastore_training L argv w1) = fst (datastore_training L argv w2)
      \<and> metrics (snd (datastore_training L argv w1))
          = metrics (snd (datastore_training L argv w2))
      \<and> same_but_rng (snd (datastore_training L argv w1))
          (snd (datastore_training L argv w2))"
  proof
    assume h: "same_but_rng w1 w2
        \<and> (\<forall>g g' C sv X y. fst (fit_logistic L g C sv X y) = fst (fit_logistic L g' C sv X y))"
    then have s: "same_but_rng w1 w2"
      and d: "\<forall>g g' C sv X y. fst (fit_logistic L g C sv X y) = fst (fit_logistic L g' C sv X y)"
      by blast+
    from rng_blindD [OF rng_blind_datastore_part [OF d] s, of a X y]
      rng_blindD [OF rng_blind_datastore [OF d] s, of argv]
    show "fst (datastore_split_fit_score L a X y w1) = fst (datastore_split_fit_score L a X y w2)
      \<and> metrics (snd (datastore_split_fit_score L a X y w1))
          = metrics (snd (datastore_split_fit_score L a X y w2))
      \<and> same_but_rng (snd (datastore_split_fit_score L a X y w1))
          (snd (datastore_split_fit_score L a X y w2))
      \<and> fst (datastore_training L argv w1) = fst (datastore_training L argv w2)
      \<and> metrics (snd (datastore_training L argv w1))
          = metrics (snd (datastore_training L argv w2))
      \<and> same_but_rng (snd (datastore_training L argv w1))
          (snd (datastore_training L argv w2))"
      by simp
  qed
  from 1 2 3 4 5 6 7 show ?thesis
    by blast
qed

theorem seeded_split_deterministic_witness:
  "split_seeded demo_lib 0 (3 / 10) [[1], [2], [3], [4]] [0, 1, 0, 1]
     = Inr ([[3], [4]], [[1], [2]], [0, 1], [0, 1])
   \<and> 3 * length [[1], [2], [3], [4 :: rat]] \<le> 10 * length [[1], [2 :: rat]]
   \<and> 10 * length [[1], [2 :: rat]] < 3 * length [[1], [2], [3], [4 :: rat]] + 10
   \<and> mset (zip [[3], [4 :: rat]] [0, 1 :: rat]) + mset (zip [[1], [2 :: rat]] [0, 1 :: rat])
       = mset (zip [[1], [2], [3], [4 :: rat]] [0, 1, 0, 1 :: rat])
   \<and> fst (train_test_split demo_lib [[1], [2], [3], [4]] [0, 1, 0, 1] (3 / 10) (Some 0)
            (demo_world\<lparr>global_rng := 99\<rparr>))
       = Inr ([[3], [4]], [[1], [2]], [0, 1], [0, 1])
   \<and> TrainTestSplit (3 / 10) (Some 0) \<in> set (trace (snd (tree_training demo_lib demo_world)))
   \<and> TrainTestSplit (3 / 10) (Some 0)
       \<in> set (trace (snd (datastore_training demo_lib demo_argv demo_world)))
   \<and> metrics (snd (tree_training demo_lib (demo_world\<lparr>global_rng := 99\<rparr>)))
       = [(''Accuracy'', Finite (1 / 2)), (''AUC'', Finite (3 / 4))]
   \<and> metrics (snd (datastore_training demo_lib demo_argv (demo_world\<lparr>global_rng := 99\<rparr>)))
       = [(''Regularization Rate'', Finite (1 / 2)), (''Accuracy'', Finite 1),
          (''AUC'', Finite (3 / 4))]"
proof -
  obtain v1 where 1: "tree_training demo_lib demo_world = (Inr (), v1)"
    using demo_tree_returns by blast
  obtain v2 where 2: "datastore_training demo_lib demo_argv demo_world = (Inr (), v2)"
    using demo_datastore_returns by blast
  have sp: "split_seeded demo_lib 0 (3 / 10) [[1], [2], [3], [4]] [0, 1, 0, 1]
     = Inr ([[3], [4]], [[1], [2]], [0, 1], [0, 1])"
    by (rule demo_split_four)
  have pm: "mset (permutation_seeded demo_lib 0 (length [[1], [2], [3], [4 :: rat]]))
     = mset [0..<length [[1], [2], [3], [4 :: rat]]]"
    by (simp add: demo_lib_def)
  have s: "same_but_rng (demo_world\<lparr>global_rng := 99\<rparr>) demo_world"
    by (simp add: same_but_rng_def)
  have dt: "\<forall>g g' X y. fst (fit_tree demo_lib g X y) = fst (fit_tree demo_lib g' X y)"
    by (simp add: demo_lib_def)
  have dl: "\<forall>g g' C sv X y. fst (fit_logistic demo_lib g C sv X y)
      = fst (fit_logistic demo_lib g' C sv X y)"
    by (simp add: demo_lib_def)
  note inst = seeded_split_deterministic [where L = demo_lib and argv = demo_argv
      and ?w1.0 = "demo_world\<lparr>global_rng := 99\<rparr>" and ?w2.0 = demo_world and u = "()"]
  have a: "3 * length [[1], [2], [3], [4 :: rat]] \<le> 10 * length [[1], [2 :: rat]]
     \<and> 10 * length [[1], [2 :: rat]] < 3 * length [[1], [2], [3], [4 :: rat]] + 10
     \<and> mset (zip [[3], [4 :: rat]] [0, 1 :: rat]) + mset (zip [[1], [2 :: rat]] [0, 1 :: rat])
         = mset (zip [[1], [2], [3], [4 :: rat]] [0, 1, 0, 1 :: rat])"
    using inst [where X = "[[1], [2], [3], [4]]" and y = "[0, 1, 0, 1]"
        and X_train = "[[3], [4]]" and X_test = "[[1], [2]]" and y_train = "[0, 1]"
        and y_test = "[0, 1]", THEN conjunct1] sp pm
    by blast
  have b: "\<exists>sp. split_seeded demo_lib 0 (3 / 10) [[1], [2], [3], [4]] [0, 1, 0, 1] = Inr sp"
    using inst [where X = "[[1], [2], [3], [4]]" and y = "[0, 1, 0, 1]",
        THEN conjunct2, THEN conjunct1]
    by simp
  have c: "fst (train_test_split demo_lib [[1], [2], [3], [4]] [0, 1, 0, 1] (3 / 10) (Some 0)
            (demo_world\<lparr>global_rng := 99\<rparr>))
       = split_seeded demo_lib 0 (3 / 10) [[1], [2], [3], [4]] [0, 1, 0, 1]"
    using inst [where X = "[[1], [2], [3], [4]]" and y = "[0, 1, 0, 1]"
        and w = "demo_world\<lparr>global_rng := 99\<rparr>",
        THEN conjunct2, THEN conjunct2, THEN conjunct1]
    by simp
  have d: "TrainTestSplit (3 / 10) (Some 0) \<in> set (trace v1)"
    using inst [where w = demo_world and w' = v1,
        THEN conjunct2, THEN conjunct2, THEN conjunct2, THEN conjunct1] 1
    by blast
  have e: "TrainTestSplit (3 / 10) (Some 0) \<in> set (trace v2)"
    using inst [where w = demo_world and w' = v2,
        THEN conjunct2, THEN conjunct2, THEN conjunct2, THEN conjunct2, THEN conjunct1] 2
    by blast
  have f: "metrics (snd (tree_training demo_lib (demo_world\<lparr>global_rng := 99\<rparr>)))
      = metrics (snd (tree_training demo_lib demo_world))"
    using inst [THEN conjunct2, THEN conjunct2, THEN conjunct2, THEN conjunct2,
        THEN conjunct2, THEN conjunct1] s dt
    by blast
  have g: "metrics (snd (datastore_training demo_lib demo_argv (demo_world\<lparr>global_rng := 99\<rparr>)))
      = metrics (snd (datastore_training demo_lib demo_argv demo_world))"
    using inst [THEN conjunct2, THEN conjunct2, THEN conjunct2, THEN conjunct2,
        THEN conjunct2, THEN conjunct2] s dl
    by blast
  from sp a b c d e f g 1 2 demo_tree_outcome(1) [OF 1] demo_datastore_outcome(1) [OF 2]
  show ?thesis
    by simp
qed

text \<open>
  Against claim C9 as stated.  The datastore script reads the files in the order in which
  \<open>os.listdir\<close> gives them and does not sort them: on the same two files listed in the
  other order, the seeded split holds out other rows and the logged accuracy is 1/2
  instead of 1.  And the test set is not 30\% of the rows: of four rows it has two.
\<close>

theorem listing_order_changes_test_set:
  "listdir demo_lib ''data'' = Inr [''a.csv'', ''b.csv'']
   \<and> listdir demo_lib_ba ''data'' = Inr [''b.csv'', ''a.csv'']
   \<and> read_csv demo_lib_ba = read_csv demo_lib
   \<and> metrics (snd (datastore_training demo_lib demo_argv demo_world))
       = [(''Regularization Rate'', Finite (1 / 2)), (''Accuracy'', Finite 1),
          (''AUC'', Finite (3 / 4))]
   \<and> metrics (snd (datastore_training demo_lib_ba demo_argv demo_world))
       = [(''Regularization Rate'', Finite (1 / 2)), (''Accuracy'', Finite (1 / 2)),
          (''AUC'', Finite (3 / 4))]
   \<and> split_seeded demo_lib 0 (3 / 10) [[1], [2], [3], [4]] [0, 1, 0, 1]
       = Inr ([[3], [4]], [[1], [2]], [0, 1], [0, 1])
   \<and> 10 * length [[1], [2 :: rat]] \<noteq> 3 * length [[1], [2], [3], [4 :: rat]]"
proof -
  obtain v1 where 1: "datastore_training demo_lib demo_argv demo_world = (Inr (), v1)"
    using demo_datastore_returns by blast
  obtain v2 where 2: "datastore_training demo_lib_ba demo_argv demo_world = (Inr (), v2)"
    using demo_ba_returns by blast
  from 1 2 demo_datastore_outcome(1) [OF 1] demo_ba_outcome [OF 2] demo_split_four
  show ?thesis
    by (simp add: demo_lib_ba_fields demo_lib_fields)
qed

lemma features_and_labels_iff:
  "features_and_labels df = Inr (X, y) \<longleftrightarrow>
     set feature_columns \<subseteq> set (df_columns df) \<and> ''Diabetic'' \<in> set (df_columns df)
     \<and> X = map (\<lambda>r. map (\<lambda>c. r ! column_index c (df_columns df)) feature_columns) (df_rows df)
     \<and> y = map (\<lambda>r. r ! column_index ''Diabetic'' (df_columns df)) (df_rows df)"
proof
  assume "features_and_labels df = Inr (X, y)"
  from features_and_labels_Inr [OF this]
  show "set feature_columns \<subseteq> set (df_columns df) \<and> ''Diabetic'' \<in> set (df_columns df)
     \<and> X = map (\<lambda>r. map (\<lambda>c. r ! column_index c (df_columns df)) feature_columns) (df_rows df)
     \<and> y = map (\<lambda>r. r ! column_index ''Diabetic'' (df_columns df)) (df_rows df)"
    by simp
next
  assume h: "set feature_columns \<subseteq> set (df_columns df) \<and> ''Diabetic'' \<in> set (df_columns df)
     \<and> X = map (\<lambda>r. map (\<lambda>c. r ! column_index c (df_columns df)) feature_columns) (df_rows df)
     \<and> y = map (\<lambda>r. r ! column_index ''Diabetic'' (df_columns df)) (df_rows df)"
  then have "filter (\<lambda>c. c \<notin> set (df_columns df)) feature_columns = []"
    by (auto simp add: filter_empty_conv)
  with h show "features_and_labels df = Inr (X, y)"
    by (simp add: features_and_labels_def select_columns_def select_column_def)
qed

lemma read_all_iff:
  "read_all L folder fs = Inr dfs \<longleftrightarrow>
     length dfs = length fs
     \<and> (\<forall>i < length fs. \<exists>p. path_join folder (fs ! i) = Inr p \<and> read_csv L p = Inr (dfs ! i))"
proof
  assume "read_all L folder fs = Inr dfs"
  then show "length dfs = length fs
     \<and> (\<forall>i < length fs. \<exists>p. path_join folder (fs ! i) = Inr p \<and> read_csv L p = Inr (dfs ! i))"
    by (rule read_all_Inr)
next
  assume "length dfs = length fs
     \<and> (\<forall>i < length fs. \<exists>p. path_join folder (fs ! i) = Inr p \<and> read_csv L p = Inr (dfs ! i))"
  then show "read_all L folder fs = Inr dfs"
  proof (induction fs arbitrary: dfs)
    case Nil
    then show ?case by simp
  next
    case (Cons f fs)
    from Cons.prems obtain d ds where dfs: "dfs = d # ds"
      by (cases dfs) auto
    from Cons.prems obtain p where p: "path_join folder f = Inr p" and r: "read_csv L p = Inr d"
      using dfs by fastforce
    have "length ds = length fs
       \<and> (\<forall>i < length fs. \<exists>p. path_join folder (fs ! i) = Inr p \<and> read_csv L p = Inr (ds ! i))"
      using Cons.prems dfs by fastforce
    then have "read_all L folder fs = Inr ds"
      by (rule Cons.IH)
    with p r dfs show ?case
      by simp
  qed
qed

lemma read_all_first_failure:
  assumes "i < length fs"
    and "\<forall>j < i. \<exists>p d. path_join folder (fs ! j) = Inr p \<and> read_csv L p = Inr d"
    and "path_join folder (fs ! i) = Inr p"
    and "read_csv L p = Inl e"
  shows "read_all L folder fs = Inl e"
  using assms
proof (induction fs arbitrary: i)
  case Nil
  then show ?case by simp
next
  case (Cons f fs)
  show ?case
  proof (cases i)
    case 0
    with Cons.prems show ?thesis by simp
  next
    case (Suc k)
    from Cons.prems(2) Suc obtain q d where q: "path_join folder f = Inr q"
      and d: "read_csv L q = Inr d"
      by fastforce
    have "read_all L folder fs = Inl e"
    proof (rule Cons.IH [of k])
      show "k < length fs"
        using Cons.prems(1) Suc by simp
      show "\<forall>j < k. \<exists>p d. path_join folder (fs ! j) = Inr p \<and> read_csv L p = Inr d"
        using Cons.prems(2) Suc by fastforce
      show "path_join folder (fs ! k) = Inr p"
        using Cons.prems(3) Suc by simp
      show "read_csv L p = Inl e"
        by (rule Cons.prems(4))
    qed
    with q d show ?thesis
      by simp
  qed
qed

lemma datastore_loaded:
  assumes "parse_args L argv = Inr a"
    and "listdir L (case data_folder a of None \<Rightarrow> ''.'' | Some d \<Rightarrow> d) = Inr all_files"
    and "load_folder L (data_folder a) all_files = Inr diabetes"
    and "features_and_labels diabetes = Inr (X, y)"
  shows "datastore_training L argv w =
     datastore_split_fit_score L a X y
       (w\<lparr>stdout := stdout w @ [''Loading data from '' @ str_opt (data_folder a)],
          trace := trace w @ [ParseArgs, GetContext, ListDir, ReadConcat, SelectColumns]\<rparr>)"
  using assms by (simp add: datastore_training_def seq_def call_def print_def)

lemma tree_loaded:
  assumes "input_datasets L ''diabetes'' = Some (Inr diabetes)"
    and "features_and_labels diabetes = Inr (X, y)"
  shows "tree_training L w =
     tree_split_fit_score L X y
       (w\<lparr>stdout := stdout w @ [''Loading Data...''],
          trace := trace w @ [GetContext, ReadDataset, SelectColumns]\<rparr>)"
  using assms
  by (simp add: tree_training_def seq_def call_def print_def input_dataframe_def)

lemma datastore_load_fails_exactly:
  assumes "parse_args L argv = Inr a"
    and "listdir L (case data_folder a of None \<Rightarrow> ''.'' | Some d \<Rightarrow> d) = Inr all_files"
    and "load_folder L (data_folder a) all_files = Inl e"
  shows "datastore_training L argv w =
     (Inl e, w\<lparr>trace := trace w @ [ParseArgs, GetContext, ListDir, ReadConcat],
               stdout := stdout w @ [''Loading data from '' @ str_opt (data_folder a)]\<rparr>)"
  using assms by (simp add: datastore_training_def seq_def call_def print_def)

lemma datastore_select_fails_exactly:
  assumes "parse_args L argv = Inr a"
    and "listdir L (case data_folder a of None \<Rightarrow> ''.'' | Some d \<Rightarrow> d) = Inr all_files"
    and "load_folder L (data_folder a) all_files = Inr diabetes"
    and "features_and_labels diabetes = Inl e"
  shows "datastore_training L argv w =
     (Inl e, w\<lparr>trace := trace w @ [ParseArgs, GetContext, ListDir, ReadConcat, SelectColumns],
               stdout := stdout w @ [''Loading data from '' @ str_opt (data_folder a)]\<rparr>)"
  using assms by (simp add: datastore_training_def seq_def call_def print_def)

lemma tree_select_fails_exactly:
  assumes "input_datasets L ''diabetes'' = Some (Inr diabetes)"
    and "features_and_labels diabetes = Inl e"
  shows "tree_training L w =
     (Inl e, w\<lparr>trace := trace w @ [GetContext, ReadDataset, SelectColumns],
               stdout := stdout w @ [''Loading Data...'']\<rparr>)"
  using assms
  by (simp add: tree_training_def seq_def call_def print_def input_dataframe_def)

lemma features_and_labels_missing_named:
  assumes "c \<in> set feature_columns \<union> {''Diabetic''}" and "c \<notin> set (df_columns df)"
  shows "\<exists>c'. features_and_labels df = Inl (KeyError c')
     \<and> c' \<in> set feature_columns \<union> {''Diabetic''} \<and> c' \<notin> set (df_columns df)"
proof (cases "filter (\<lambda>c. c \<notin> set (df_columns df)) feature_columns")
  case Nil
  then have "\<forall>c \<in> set feature_columns. c \<in> set (df_columns df)"
    by (simp add: filter_empty_conv)
  with assms have "''Diabetic'' \<notin> set (df_columns df)"
    by auto
  with Nil show ?thesis
    by (simp add: features_and_labels_def select_columns_def select_column_def)
next
  case (Cons c' cs)
  then have "c' \<in> set (filter (\<lambda>c. c \<notin> set (df_columns df)) feature_columns)"
    by simp
  then have "c' \<notin> set (df_columns df)" and "c' \<in> set feature_columns"
    by simp_all
  with Cons show ?thesis
    by (simp add: features_and_labels_def select_columns_def)
qed

text \<open>
  Claim C10, as the code has it.  Both scripts take the feature matrix from exactly the
  columns Pregnancies, PlasmaGlucose, DiastolicBloodPressure, TricepsThickness,
  SerumInsulin, BMI, DiabetesPedigree and Age of the dataframe, in that order, and the
  labels from its column Diabetic, and run the split, the fit and the scoring on these.
  The dataframe of the datastore script is \<open>pd.concat\<close> of what \<open>read_csv\<close> returns for
  every entry that \<open>os.listdir\<close> gives for the data folder, whatever its name, in the order
  of the listing.  Loading fails when \<open>read_csv\<close> cannot read some entry, with the
  exception of the first such entry, or when the concatenation fails; a column that the
  loaded dataframe lacks makes the selection that follows the loading fail with a
  \<open>KeyError\<close>, in either script.
\<close>

theorem features_and_loading:
  "(features_and_labels df = Inr (X, y) \<longleftrightarrow>
        set feature_columns \<subseteq> set (df_columns df) \<and> ''Diabetic'' \<in> set (df_columns df)
      \<and> X = map (\<lambda>r. [r ! column_index ''Pregnancies'' (df_columns df),
                       r ! column_index ''PlasmaGlucose'' (df_columns df),
                       r ! column_index ''DiastolicBloodPressure'' (df_columns df),
                       r ! column_index ''TricepsThickness'' (df_columns df),
                       r ! column_index ''SerumInsulin'' (df_columns df),
                       r ! column_index ''BMI'' (df_columns df),
                       r ! column_index ''DiabetesPedigree'' (df_columns df),
                       r ! column_index ''Age'' (df_columns df)]) (df_rows df)
      \<and> y = map (\<lambda>r. r ! column_index ''Diabetic'' (df_columns df)) (df_rows df))
   \<and> (input_datasets L ''diabetes'' = Some (Inr diabetes)
        \<and> features_and_labels diabetes = Inr (X, y) \<longrightarrow>
        tree_training L w =
          tree_split_fit_score L X y
            (w\<lparr>stdout := stdout w @ [''Loading Data...''],
               trace := trace w @ [GetContext, ReadDataset, SelectColumns]\<rparr>))
   \<and> (parse_args L argv = Inr a
        \<and> listdir L (case data_folder a of None \<Rightarrow> ''.'' | Some d \<Rightarrow> d) = Inr all_files
        \<and> length dfs = length all_files
        \<and> (\<forall>i < length all_files.
              \<exists>p. path_join (data_folder a) (all_files ! i) = Inr p
                 \<and> read_csv L p = Inr (dfs ! i))
        \<and> pd_concat L dfs = Inr diabetes
        \<and> features_and_labels diabetes = Inr (X, y) \<longrightarrow>
        datastore_training L argv w =
          datastore_split_fit_score L a X y
            (w\<lparr>stdout := stdout w @ [''Loading data from '' @ str_opt (data_folder a)],
               trace := trace w
                 @ [ParseArgs, GetContext, ListDir, ReadConcat, SelectColumns]\<rparr>))
   \<and> (parse_args L argv = Inr a
        \<and> listdir L (case data_folder a of None \<Rightarrow> ''.'' | Some d \<Rightarrow> d) = Inr all_files
        \<and> i < length all_files
        \<and> (\<forall>j < i. \<exists>p d. path_join (data_folder a) (all_files ! j) = Inr p
                          \<and> read_csv L p = Inr d)
        \<and> path_join (data_folder a) (all_files ! i) = Inr p \<and> read_csv L p = Inl e \<longrightarrow>
        datastore_training L argv w =
          (Inl e, w\<lparr>stdout := stdout w @ [''Loading data from '' @ str_opt (data_folder a)],
                    trace := trace w @ [ParseArgs, GetContext, ListDir, ReadConcat]\<rparr>))
   \<and> (parse_args L argv = Inr a
        \<and> listdir L (case data_folder a of None \<Rightarrow> ''.'' | Some d \<Rightarrow> d) = Inr all_files
        \<and> read_all L (data_folder a) all_files = Inr dfs \<and> pd_concat L dfs = Inl e \<longrightarrow>
        datastore_training L argv w =
          (Inl e, w\<lparr>stdout := stdout w @ [''Loading data from '' @ str_opt (data_folder a)],
                    trace := trace w @ [ParseArgs, GetContext, ListDir, ReadConcat]\<rparr>))
   \<and> (parse_args L argv = Inr a
        \<and> listdir L (case data_folder a of None \<Rightarrow> ''.'' | Some d \<Rightarrow> d) = Inr all_files
        \<and> read_all L (data_folder a) all_files = Inr dfs \<and> pd_concat L dfs = Inr diabetes
        \<and> c \<in> set feature_columns \<union> {''Diabetic''} \<and> c \<notin> set (df_columns diabetes) \<longrightarrow>
        (\<exists>c'. c' \<in> set feature_columns \<union> {''Diabetic''} \<and> c' \<notin> set (df_columns diabetes)
           \<and> datastore_training L argv w =
               (Inl (KeyError c'),
                w\<lparr>stdout := stdout w @ [''Loading data from '' @ str_opt (data_folder a)],
                  trace := trace w
                    @ [ParseArgs, GetContext, ListDir, ReadConcat, SelectColumns]\<rparr>)))
   \<and> (input_datasets L ''diabetes'' = Some (Inr diabetes)
        \<and> c \<in> set feature_columns \<union> {''Diabetic''} \<and> c \<notin> set (df_columns diabetes) \<longrightarrow>
        (\<exists>c'. c' \<in> set feature_columns \<union> {''Diabetic''} \<and> c' \<notin> set (df_columns diabetes)
           \<and> tree_training L w =
               (Inl (KeyError c'),
                w\<lparr>stdout := stdout w @ [''Loading Data...''],
                  trace := trace w @ [GetContext, ReadDataset, SelectColumns]\<rparr>)))"
proof -
  have 1: "features_and_labels df = Inr (X, y) \<longleftrightarrow>
        set feature_columns \<subseteq> set (df_columns df) \<and> ''Diabetic'' \<in> set (df_columns df)
      \<and> X = map (\<lambda>r. [r ! column_index ''Pregnancies'' (df_columns df),
                       r ! column_index ''PlasmaGlucose'' (df_columns df),
                       r ! column_index ''DiastolicBloodPressure'' (df_columns df),
                       r ! column_index ''TricepsThickness'' (df_columns df),
                       r ! column_index ''SerumInsulin'' (df_columns df),
                       r ! column_index ''BMI'' (df_columns df),
                       r ! column_index ''DiabetesPedigree'' (df_columns df),
                       r ! column_index ''Age'' (df_columns df)]) (df_rows df)
      \<and> y = map (\<lambda>r. r ! column_index ''Diabetic'' (df_columns df)) (df_rows df)"
  proof -
    have "map (\<lambda>r. map (\<lambda>c. r ! column_index c (df_columns df)) feature_columns) (df_rows df)
        = map (\<lambda>r. [r ! column_index ''Pregnancies'' (df_columns df),
                     r ! column_index ''PlasmaGlucose'' (df_columns df),
                     r ! column_index ''DiastolicBloodPressure'' (df_columns df),
                     r ! column_index ''TricepsThickness'' (df_columns df),
                     r ! column_index ''SerumInsulin'' (df_columns df),
                     r ! column_index ''BMI'' (df_columns df),
                     r ! column_index ''DiabetesPedigree'' (df_columns df),
                     r ! column_index ''Age'' (df_columns df)]) (df_rows df)"
      by (simp add: feature_columns_def)
    then show ?thesis
      by (simp only: features_and_labels_iff)
  qed
  have 2: "input_datasets L ''diabetes'' = Some (Inr diabetes)
        \<and> features_and_labels diabetes = Inr (X, y) \<longrightarrow>
        tree_training L w =
          tree_split_fit_score L X y
            (w\<lparr>stdout := stdout w @ [''Loading Data...''],
               trace := trace w @ [GetContext, ReadDataset, SelectColumns]\<rparr>)"
    using tree_loaded [of L diabetes X y w] by blast
  have 3: "parse_args L argv = Inr a
        \<and> listdir L (case data_folder a of None \<Rightarrow> ''.'' | Some d \<Rightarrow> d) = Inr all_files
        \<and> length dfs = length all_files
        \<and> (\<forall>i < length all_files.
              \<exists>p. path_join (data_folder a) (all_files ! i) = Inr p
                 \<and> read_csv L p = Inr (dfs ! i))
        \<and> pd_concat L dfs = Inr diabetes
        \<and> features_and_labels diabetes = Inr (X, y) \<longrightarrow>
        datastore_training L argv w =
          datastore_split_fit_score L a X y
            (w\<lparr>stdout := stdout w @ [''Loading data from '' @ str_opt (data_folder a)],
               trace := trace w
                 @ [ParseArgs, GetContext, ListDir, ReadConcat, SelectColumns]\<rparr>)"
  proof
    assume h: "parse_args L argv = Inr a
        \<and> listdir L (case data_folder a of None \<Rightarrow> ''.'' | Some d \<Rightarrow> d) = Inr all_files
        \<and> length dfs = length all_files
        \<and> (\<forall>i < length all_files.
              \<exists>p. path_join (data_folder a) (all_files ! i) = Inr p
                 \<and> read_csv L p = Inr (dfs ! i))
        \<and> pd_concat L dfs = Inr diabetes
        \<and> features_and_labels diabetes = Inr (X, y)"
    then have "read_all L (data_folder a) all_files = Inr dfs"
      using read_all_iff [of L "data_folder a" all_files dfs] by blast
    with h have "load_folder L (data_folder a) all_files = Inr diabetes"
      by (simp add: load_folder_def)
    with h show "datastore_training L argv w =
          datastore_split_fit_score L a X y
            (w\<lparr>stdout := stdout w @ [''Loading data from '' @ str_opt (data_folder a)],
               trace := trace w
                 @ [ParseArgs, GetContext, ListDir, ReadConcat, SelectColumns]\<rparr>)"
      using datastore_loaded [of L argv a all_files diabetes X y w] by blast
  qed
  have 4: "parse_args L argv = Inr a
        \<and> listdir L (case data_folder a of None \<Rightarrow> ''.'' | Some d \<Rightarrow> d) = Inr all_files
        \<and> i < length all_files
        \<and> (\<forall>j < i. \<exists>p d. path_join (data_folder a) (all_files ! j) = Inr p
                          \<and> read_csv L p = Inr d)
        \<and> path_join (data_folder a) (all_files ! i) = Inr p \<and> read_csv L p = Inl e \<longrightarrow>
        datastore_training L argv w =
          (Inl e, w\<lparr>stdout := stdout w @ [''Loading data from '' @ str_opt (data_folder a)],
                    trace := trace w @ [ParseArgs, GetContext, ListDir, ReadConcat]\<rparr>)"
  proof
    assume h: "parse_args L argv = Inr a
        \<and> listdir L (case data_folder a of None \<Rightarrow> ''.'' | Some d \<Rightarrow> d) = Inr all_files
        \<and> i < length all_files
        \<and> (\<forall>j < i. \<exists>p d. path_join (data_folder a) (all_files ! j) = Inr p
                          \<and> read_csv L p = Inr d)
        \<and> path_join (data_folder a) (all_files ! i) = Inr p \<and> read_csv L p = Inl e"
    then have "read_all L (data_folder a) all_files = Inl e"
      using read_all_first_failure [of i all_files "data_folder a" L p e] by blast
    then have "load_folder L (data_folder a) all_files = Inl e"
      by (simp add: load_folder_def)
    with h datastore_load_fails_exactly [of L argv a all_files e w]
    show "datastore_training L argv w =
          (Inl e, w\<lparr>stdout := stdout w @ [''Loading data from '' @ str_opt (data_folder a)],
                    trace := trace w @ [ParseArgs, GetContext, ListDir, ReadConcat]\<rparr>)"
      by simp
  qed
  have 5: "parse_args L argv = Inr a
        \<and> listdir L (case data_folder a of None \<Rightarrow> ''.'' | Some d \<Rightarrow> d) = Inr all_files
        \<and> read_all L (data_folder a) all_files = Inr dfs \<and> pd_concat L dfs = Inl e \<longrightarrow>
        datastore_training L argv w =
          (Inl e, w\<lparr>stdout := stdout w @ [''Loading data from '' @ str_opt (data_folder a)],
                    trace := trace w @ [ParseArgs, GetContext, ListDir, ReadConcat]\<rparr>)"
  proof
    assume h: "parse_args L argv = Inr a
        \<and> listdir L (case data_folder a of None \<Rightarrow> ''.'' | Some d \<Rightarrow> d) = Inr all_files
        \<and> read_all L (data_folder a) all_files = Inr dfs \<and> pd_concat L dfs = Inl e"
    then have "load_folder L (data_folder a) all_files = Inl e"
      by (simp add: load_folder_def)
    with h datastore_load_fails_exactly [of L argv a all_files e w]
    show "datastore_training L argv w =
          (Inl e, w\<lparr>stdout := stdout w @ [''Loading data from '' @ str_opt (data_folder a)],
                    trace := trace w @ [ParseArgs, GetContext, ListDir, ReadConcat]\<rparr>)"
      by simp
  qed
  have 6: "parse_args L argv = Inr a
        \<and> listdir L (case data_folder a of None \<Rightarrow> ''.'' | Some d \<Rightarrow> d) = Inr all_files
        \<and> read_all L (data_folder a) all_files = Inr dfs \<and> pd_concat L dfs = Inr diabetes
        \<and> c \<in> set feature_columns \<union> {''Diabetic''} \<and> c \<notin> set (df_columns diabetes) \<longrightarrow>
        (\<exists>c'. c' \<in> set feature_columns \<union> {''Diabetic''} \<and> c' \<notin> set (df_columns diabetes)
           \<and> datastore_training L argv w =
               (Inl (KeyError c'),
                w\<lparr>stdout := stdout w @ [''Loading data from '' @ str_opt (data_folder a)],
                  trace := trace w
                    @ [ParseArgs, GetContext, ListDir, ReadConcat, SelectColumns]\<rparr>))"
  proof
    assume h: "parse_args L argv = Inr a
        \<and> listdir L (case data_folder a of None \<Rightarrow> ''.'' | Some d \<Rightarrow> d) = Inr all_files
        \<and> read_all L (data_folder a) all_files = Inr dfs \<and> pd_concat L dfs = Inr diabetes
        \<and> c \<in> set feature_columns \<union> {''Diabetic''} \<and> c \<notin> set (df_columns diabetes)"
    then have l: "load_folder L (data_folder a) all_files = Inr diabetes"
      by (simp add: load_folder_def)
    from h obtain c' where c': "features_and_labels diabetes = Inl (KeyError c')"
      and m: "c' \<in> set feature_columns \<union> {''Diabetic''}" "c' \<notin> set (df_columns diabetes)"
      using features_and_labels_missing_named [of c diabetes] by blast
    from h l c' datastore_select_fails_exactly [of L argv a all_files diabetes "KeyError c'" w]
    have "datastore_training L argv w =
               (Inl (KeyError c'),
                w\<lparr>stdout := stdout w @ [''Loading data from '' @ str_opt (data_folder a)],
                  trace := trace w
                    @ [ParseArgs, GetContext, ListDir, ReadConcat, SelectColumns]\<rparr>)"
      by simp
    with m show "\<exists>c'. c' \<in> set feature_columns \<union> {''Diabetic''}
           \<and> c' \<notin> set (df_columns diabetes)
           \<and> datastore_training L argv w =
               (Inl (KeyError c'),
                w\<lparr>stdout := stdout w @ [''Loading data from '' @ str_opt (data_folder a)],
                  trace := trace w
                    @ [ParseArgs, GetContext, ListDir, ReadConcat, SelectColumns]\<rparr>)"
      by blast
  qed
  have 7: "input_datasets L ''diabetes'' = Some (Inr diabetes)
        \<and> c \<in> set feature_columns \<union> {''Diabetic''} \<and> c \<notin> set (df_columns diabetes) \<longrightarrow>
        (\<exists>c'. c' \<in> set feature_columns \<union> {''Diabetic''} \<and> c' \<notin> set (df_columns diabetes)
           \<and> tree_training L w =
               (Inl (KeyError c'),
                w\<lparr>stdout := stdout w @ [''Loading Data...''],
                  trace := trace w @ [GetContext, ReadDataset, SelectColumns]\<rparr>))"
  proof
    assume h: "input_datasets L ''diabetes'' = Some (Inr diabetes)
        \<and> c \<in> set feature_columns \<union> {''Diabetic''} \<and> c \<notin> set (df_columns diabetes)"
    then obtain c' where c': "features_and_labels diabetes = Inl (KeyError c')"
      and m: "c' \<in> set feature_columns \<union> {''Diabetic''}" "c' \<notin> set (df_columns diabetes)"
      using features_and_labels_missing_named [of c diabetes] by blast
    from h c' tree_select_fails_exactly [of L diabetes "KeyError c'" w]
    have "tree_training L w =
               (Inl (KeyError c'),
                w\<lparr>stdout := stdout w @ [''Loading Data...''],
                  trace := trace w @ [GetContext, ReadDataset, SelectColumns]\<rparr>)"
      by simp
    with m show "\<exists>c'. c' \<in> set feature_columns \<union> {''Diabetic''}
           \<and> c' \<notin> set (df_columns diabetes)
           \<and> tree_training L w =
               (Inl (KeyError c'),
                w\<lparr>stdout := stdout w @ [''Loading Data...''],
                  trace := trace w @ [GetContext, ReadDataset, SelectColumns]\<rparr>)"
      by blast
  qed
  from 1 2 3 4 5 6 7 show ?thesis
    by (intro conjI)
qed

lemma demo_features:
  "features_and_labels
       \<lparr> df_columns = demo_columns, df_rows = df_rows demo_frame_a @ df_rows demo_frame_b \<rparr>
     = Inr ([[0, 171, 80, 34, 23, 43, 1, 21], [8, 92, 93, 47, 36, 21, 0, 23],
             [7, 115, 47, 52, 35, 41, 0, 43], [9, 103, 78, 25, 304, 29, 1, 43]],
            [1, 0, 0, 0])"
  by (simp add: demo_defs table_defs)

lemma demo_text_returns:
  "\<exists>w'. datastore_training demo_lib
          \<lparr>regularization = Some ''0.5'', data_folder_opt = Some ''text''\<rparr> demo_world
        = (Inr (), w')"
  by (simp add: datastore_training_Inr demo_defs table_defs)

theorem features_and_loading_witness:
  "features_and_labels
       \<lparr> df_columns = demo_columns, df_rows = df_rows demo_frame_a @ df_rows demo_frame_b \<rparr>
     = Inr ([[0, 171, 80, 34, 23, 43, 1, 21], [8, 92, 93, 47, 36, 21, 0, 23],
             [7, 115, 47, 52, 35, 41, 0, 43], [9, 103, 78, 25, 304, 29, 1, 43]],
            [1, 0, 0, 0])
   \<and> tree_training demo_lib demo_world
     = tree_split_fit_score demo_lib
         [[0, 171, 80, 34, 23, 43, 1, 21], [8, 92, 93, 47, 36, 21, 0, 23],
          [7, 115, 47, 52, 35, 41, 0, 43], [9, 103, 78, 25, 304, 29, 1, 43]]
         [1, 0, 0, 0]
         (demo_world\<lparr>stdout := [''Loading Data...''],
                      trace := [GetContext, ReadDataset, SelectColumns]\<rparr>)
   \<and> fst (tree_training demo_lib demo_world) = Inr ()
   \<and> datastore_training demo_lib demo_argv demo_world
     = datastore_split_fit_score demo_lib
         \<lparr>reg_rate = Finite (1 / 2), data_folder = Some ''data''\<rparr>
         [[0, 171, 80, 34, 23, 43, 1, 21], [8, 92, 93, 47, 36, 21, 0, 23],
          [7, 115, 47, 52, 35, 41, 0, 43], [9, 103, 78, 25, 304, 29, 1, 43]]
         [1, 0, 0, 0]
         (demo_world\<lparr>stdout := [''Loading data from data''],
                      trace := [ParseArgs, GetContext, ListDir, ReadConcat, SelectColumns]\<rparr>)
   \<and> fst (datastore_training demo_lib demo_argv demo_world) = Inr ()
   \<and> datastore_training demo_lib
         \<lparr>regularization = Some ''0.5'', data_folder_opt = Some ''mixed''\<rparr> demo_world
     = (Inl (LibraryError ''ParserError''),
        demo_world\<lparr>stdout := [''Loading data from mixed''],
                     trace := [ParseArgs, GetContext, ListDir, ReadConcat]\<rparr>)
   \<and> datastore_training (demo_lib\<lparr>listdir := (\<lambda>d. Inr [])\<rparr>) demo_argv demo_world
     = (Inl ValueError,
        demo_world\<lparr>stdout := [''Loading data from data''],
                     trace := [ParseArgs, GetContext, ListDir, ReadConcat]\<rparr>)
   \<and> datastore_training demo_lib
         \<lparr>regularization = Some ''0.5'', data_folder_opt = Some ''short''\<rparr> demo_world
     = (Inl (KeyError ''Age''),
        demo_world\<lparr>stdout := [''Loading data from short''],
                     trace := [ParseArgs, GetContext, ListDir, ReadConcat, SelectColumns]\<rparr>)
   \<and> tree_training (demo_lib\<lparr>input_datasets := (\<lambda>n. Some (Inr demo_frame_c))\<rparr>) demo_world
     = (Inl (KeyError ''Age''),
        demo_world\<lparr>stdout := [''Loading Data...''],
                     trace := [GetContext, ReadDataset, SelectColumns]\<rparr>)"
proof -
  let ?df = "\<lparr> df_columns = demo_columns,
               df_rows = df_rows demo_frame_a @ df_rows demo_frame_b \<rparr>"
  let ?X = "[[0, 171, 80, 34, 23, 43, 1, 21], [8, 92, 93, 47, 36, 21, 0, 23],
             [7, 115, 47, 52, 35, 41, 0, 43], [9, 103, 78, 25, 304, 29, 1, 43 :: rat]]"
  let ?y = "[1, 0, 0, 0 :: rat]"
  let ?a = "\<lambda>d. \<lparr>reg_rate = Finite (1 / 2), data_folder = Some d\<rparr>"
  let ?argv = "\<lambda>d. \<lparr>regularization = Some ''0.5'', data_folder_opt = Some d\<rparr>"
  let ?empty = "demo_lib\<lparr>listdir := (\<lambda>d. Inr [])\<rparr>"
  let ?short = "demo_lib\<lparr>input_datasets := (\<lambda>n. Some (Inr demo_frame_c))\<rparr>"
  have only_age: "c' = ''Age''"
    if "c' \<in> set feature_columns \<union> {''Diabetic''}" "c' \<notin> set (df_columns demo_frame_c)"
    for c'
    using that by (auto simp add: feature_columns_def demo_frame_c_def)
  have age: "''Age'' \<in> set feature_columns \<union> {''Diabetic''}"
      "''Age'' \<notin> set (df_columns demo_frame_c)"
    by (simp_all add: feature_columns_def demo_frame_c_def)
  have 1: "features_and_labels ?df = Inr (?X, ?y)"
    using features_and_loading [where df = "?df" and X = "?X" and y = "?y", THEN conjunct1]
    by (simp add: demo_defs table_defs)
  have 2: "tree_training demo_lib demo_world
     = tree_split_fit_score demo_lib ?X ?y
         (demo_world\<lparr>stdout := [''Loading Data...''],
                      trace := [GetContext, ReadDataset, SelectColumns]\<rparr>)"
    using features_and_loading [where L = demo_lib and diabetes = "?df" and X = "?X"
        and y = "?y" and w = demo_world, THEN conjunct2, THEN conjunct1] demo_features
    by (simp add: demo_lib_fields demo_concat_def demo_world_def demo_frame_a_def
        demo_frame_b_def)
  have tree_ok: "fst (tree_training demo_lib demo_world) = Inr ()"
    using demo_tree_returns by auto
  have "\<forall>i < length [''a.csv'', ''b.csv''].
          \<exists>p. path_join (Some ''data'') ([''a.csv'', ''b.csv''] ! i) = Inr p
             \<and> read_csv demo_lib p = Inr ([demo_frame_a, demo_frame_b] ! i)"
    by (auto simp add: less_Suc_eq path_join_def demo_lib_fields)
  then have 3: "datastore_training demo_lib demo_argv demo_world
     = datastore_split_fit_score demo_lib (?a ''data'') ?X ?y
         (demo_world\<lparr>stdout := [''Loading data from data''],
                      trace := [ParseArgs, GetContext, ListDir, ReadConcat, SelectColumns]\<rparr>)"
    using features_and_loading [where L = demo_lib and argv = demo_argv
        and a = "?a ''data''" and all_files = "[''a.csv'', ''b.csv'']"
        and dfs = "[demo_frame_a, demo_frame_b]" and diabetes = "?df" and X = "?X"
        and y = "?y" and w = demo_world,
        THEN conjunct2, THEN conjunct2, THEN conjunct1] demo_features
    by (simp add: demo_lib_fields demo_concat_def demo_world_def demo_argv_def
        parse_args_def str_opt_def demo_frame_a_def demo_frame_b_def)
  have datastore_ok: "fst (datastore_training demo_lib demo_argv demo_world) = Inr ()"
    using demo_datastore_returns by auto
  have "\<forall>j < 1. \<exists>p d. path_join (Some ''mixed'') ([''a.csv'', ''notes.bin''] ! j) = Inr p
                     \<and> read_csv demo_lib p = Inr d"
    by (simp add: path_join_def demo_lib_fields)
  then have 4: "datastore_training demo_lib (?argv ''mixed'') demo_world
     = (Inl (LibraryError ''ParserError''),
        demo_world\<lparr>stdout := [''Loading data from mixed''],
                     trace := [ParseArgs, GetContext, ListDir, ReadConcat]\<rparr>)"
    using features_and_loading [where L = demo_lib and argv = "?argv ''mixed''"
        and a = "?a ''mixed''" and all_files = "[''a.csv'', ''notes.bin'']"
        and i = 1 and p = "''mixed/notes.bin''" and e = "LibraryError ''ParserError''"
        and w = demo_world,
        THEN conjunct2, THEN conjunct2, THEN conjunct2, THEN conjunct1]
    by (simp add: demo_lib_fields demo_world_def parse_args_def str_opt_def path_join_def)
  have 5: "datastore_training ?empty demo_argv demo_world
     = (Inl ValueError,
        demo_world\<lparr>stdout := [''Loading data from data''],
                     trace := [ParseArgs, GetContext, ListDir, ReadConcat]\<rparr>)"
    using features_and_loading [where L = "?empty" and argv = demo_argv
        and a = "?a ''data''" and all_files = "[]" and dfs = "[]" and e = ValueError
        and w = demo_world,
        THEN conjunct2, THEN conjunct2, THEN conjunct2, THEN conjunct2, THEN conjunct1]
    by (simp add: demo_lib_fields demo_concat_def demo_world_def demo_argv_def
        parse_args_def str_opt_def)
  have 6: "datastore_training demo_lib (?argv ''short'') demo_world
     = (Inl (KeyError ''Age''),
        demo_world\<lparr>stdout := [''Loading data from short''],
                     trace := [ParseArgs, GetContext, ListDir, ReadConcat, SelectColumns]\<rparr>)"
  proof -
    have "\<exists>c'. c' \<in> set feature_columns \<union> {''Diabetic''}
            \<and> c' \<notin> set (df_columns demo_frame_c)
            \<and> datastore_training demo_lib (?argv ''short'') demo_world
              = (Inl (KeyError c'),
                 demo_world\<lparr>stdout := [''Loading data from short''],
                   trace := [ParseArgs, GetContext, ListDir, ReadConcat, SelectColumns]\<rparr>)"
      using features_and_loading [where L = demo_lib and argv = "?argv ''short''"
          and a = "?a ''short''" and all_files = "[''c.csv'']" and dfs = "[demo_frame_c]"
          and diabetes = demo_frame_c and c = "''Age''" and w = demo_world,
          THEN conjunct2, THEN conjunct2, THEN conjunct2, THEN conjunct2, THEN conjunct2,
          THEN conjunct1] age
      by (simp add: demo_lib_fields demo_concat_def demo_world_def parse_args_def
          str_opt_def path_join_def)
    then show ?thesis
      using only_age by blast
  qed
  have 7: "tree_training ?short demo_world
     = (Inl (KeyError ''Age''),
        demo_world\<lparr>stdout := [''Loading Data...''],
                     trace := [GetContext, ReadDataset, SelectColumns]\<rparr>)"
  proof -
    have "\<exists>c'. c' \<in> set feature_columns \<union> {''Diabetic''}
            \<and> c' \<notin> set (df_columns demo_frame_c)
            \<and> tree_training ?short demo_world
              = (Inl (KeyError c'),
                 demo_world\<lparr>stdout := [''Loading Data...''],
                   trace := [GetContext, ReadDataset, SelectColumns]\<rparr>)"
      using features_and_loading [where L = "?short" and diabetes = demo_frame_c
          and c = "''Age''" and w = demo_world,
          THEN conjunct2, THEN conjunct2, THEN conjunct2, THEN conjunct2, THEN conjunct2,
          THEN conjunct2] age
      by (simp add: demo_world_def)
    then show ?thesis
      using only_age by blast
  qed
  from 1 2 tree_ok 3 datastore_ok 4 5 6 7 show ?thesis
    by (intro conjI)
qed

text \<open>
  Against claim C10 as stated, on two points.  An entry that is not a CSV file does not
  make loading fail as long as \<open>read_csv\<close> parses it: the folder \<open>text\<close> holds \<open>a.csv\<close> and
  \<open>notes.txt\<close>, both are read, and the run ends normally.  And a missing column does not
  make loading fail: the file of the folder \<open>short\<close> lacks the column \<open>Age\<close>, loading
  returns its dataframe, and the run fails one step later, at the selection of the
  columns, with a \<open>KeyError\<close>.
\<close>

theorem non_csv_entry_loads:
  "listdir demo_lib ''text'' = Inr [''a.csv'', ''notes.txt'']
   \<and> load_folder demo_lib (Some ''text'') [''a.csv'', ''notes.txt'']
     = Inr \<lparr> df_columns = demo_columns,
             df_rows = df_rows demo_frame_a @ df_rows demo_frame_b \<rparr>
   \<and> fst (datastore_training demo_lib
            \<lparr>regularization = Some ''0.5'', data_folder_opt = Some ''text''\<rparr> demo_world)
     = Inr ()
   \<and> listdir demo_lib ''short'' = Inr [''c.csv'']
   \<and> load_folder demo_lib (Some ''short'') [''c.csv''] = Inr demo_frame_c
   \<and> ''Age'' \<notin> set (df_columns demo_frame_c)
   \<and> datastore_training demo_lib
         \<lparr>regularization = Some ''0.5'', data_folder_opt = Some ''short''\<rparr> demo_world
     = (Inl (KeyError ''Age''),
        demo_world\<lparr>stdout := [''Loading data from short''],
                     trace := [ParseArgs, GetContext, ListDir, ReadConcat, SelectColumns]\<rparr>)"
proof -
  have "fst (datastore_training demo_lib
            \<lparr>regularization = Some ''0.5'', data_folder_opt = Some ''text''\<rparr> demo_world)
     = Inr ()"
    using demo_text_returns by auto
  moreover have "load_folder demo_lib (Some ''short'') [''c.csv''] = Inr demo_frame_c"
    by (simp add: load_folder_def path_join_def demo_lib_fields demo_concat_def
        demo_frame_c_def)
  moreover have "features_and_labels demo_frame_c = Inl (KeyError ''Age'')"
    by (simp add: demo_frame_c_def table_defs)
  ultimately show ?thesis
    using datastore_select_fails_exactly [where L = demo_lib
        and argv = "\<lparr>regularization = Some ''0.5'', data_folder_opt = Some ''short''\<rparr>"
        and a = "\<lparr>reg_rate = Finite (1 / 2), data_folder = Some ''short''\<rparr>"
        and all_files = "[''c.csv'']" and diabetes = demo_frame_c
        and e = "KeyError ''Age''" and w = demo_world]
    by (simp add: demo_lib_fields demo_concat_def demo_world_def parse_args_def str_opt_def
        load_folder_def path_join_def demo_frame_a_def demo_frame_b_def demo_frame_c_def
        feature_columns_def)
qed

end
